theory Spec2Isabelle
  imports Complex_Main "HOL-Library.Sublist"
begin

section \<open>CarDocAI core: engine-sound and dashboard-image analysis\<close>

text \<open>
  A shallow embedding of \<^verbatim>\<open>backend/services/audio_analyzer.py\<close>,
  \<^verbatim>\<open>backend/services/image_analyzer.py\<close> and of the validation prefix of
  \<^verbatim>\<open>diagnose_engine_sound\<close> in \<^verbatim>\<open>backend/routers/diagnosis.py\<close>.

  Python floats are idealised as \<^typ>\<open>real\<close> (sums such as \<open>0.3 + 0.2\<close> are exact), except
  in the confidence of a warning light: there a threshold is tested on a sum of a few
  decimal constants, the rounding of IEEE doubles decides the test, and the model computes
  with doubles.
  Python dictionaries with a fixed key set are records; the two insertion-ordered tables
  (\<^verbatim>\<open>engine_fault_patterns\<close>, \<^verbatim>\<open>color_ranges\<close>) are lists in declaration order.
  What librosa, numpy and OpenCV compute from the raw samples or pixels (spectra, beat
  tracks, contours) is input to the model: the model starts where the repository's own
  arithmetic and control flow start.
\<close>

subsection \<open>Python numerics\<close>

text \<open>
  Rounding to an integer with ties to even, \<^verbatim>\<open>round(x, 3)\<close> on the idealised reals
  and \<^verbatim>\<open>int(x)\<close> (towards zero).
\<close>

definition round_half_even :: "real \<Rightarrow> int" where
  "round_half_even x =
     (let f = \<lfloor>x\<rfloor>; d = x - of_int f in
      if d < 1 / 2 then f else if d > 1 / 2 then f + 1 else if even f then f else f + 1)"

definition round3 :: "real \<Rightarrow> real" where
  "round3 x = of_int (round_half_even (x * 1000)) / 1000"

definition int_trunc :: "real \<Rightarrow> int" where
  "int_trunc x = (if x \<ge> 0 then \<lfloor>x\<rfloor> else \<lceil>x\<rceil>)"

subsection \<open>IEEE doubles\<close>

text \<open>
  A finite double is represented by the real number it denotes. \<open>binade x\<close> is the largest
  power of two that is at most \<open>x\<close>, found by doubling from 1 (at most 1023 times) or by
  halving from 1 (at most 1022 times, which stops at the smallest normal number, so that
  smaller values get the spacing of the subnormals). \<open>fl\<close> rounds a real to the nearest
  double, a tie to the even mantissa of 53 bits. Results beyond the largest double do not
  arise from the sums and quotients below and are not modelled.
\<close>

fun below_pow2 :: "nat \<Rightarrow> real \<Rightarrow> real \<Rightarrow> real" where
  "below_pow2 0 p x = p"
| "below_pow2 (Suc n) p x = (if p \<le> x then p else below_pow2 n (p / 2) x)"

fun above_pow2 :: "nat \<Rightarrow> real \<Rightarrow> real \<Rightarrow> real" where
  "above_pow2 0 p x = p"
| "above_pow2 (Suc n) p x = (if x < 2 * p then p else above_pow2 n (2 * p) x)"

definition binade :: "real \<Rightarrow> real" where
  "binade x = (if 1 \<le> x then above_pow2 1023 1 x else below_pow2 1022 1 x)"

definition fl :: "real \<Rightarrow> real" where
  "fl x =
     (if x = 0 then 0
      else (let q = binade \<bar>x\<bar> / 2 ^ 52
            in sgn x * real_of_int (round_half_even (\<bar>x\<bar> / q)) * q))"

text \<open>
  The operations on doubles round the exact result; a decimal literal such as
  \<^verbatim>\<open>0.3\<close> is the double \<open>fl 0.3\<close>.
\<close>

definition fadd :: "real \<Rightarrow> real \<Rightarrow> real" where
  "fadd x y = fl (x + y)"

definition fmul :: "real \<Rightarrow> real \<Rightarrow> real" where
  "fmul x y = fl (x * y)"

definition fdiv :: "real \<Rightarrow> real \<Rightarrow> real" where
  "fdiv x y = fl (x / y)"

text \<open>
  \<^verbatim>\<open>round(x, 2)\<close> on a Python float \<open>x\<close>: the exact value of \<open>x\<close> is rounded to two
  decimals, a tie to even, and the decimal result is converted to the nearest double.
\<close>

definition py_round2 :: "real \<Rightarrow> real" where
  "py_round2 x = fl (real_of_int (round_half_even (x * 100)) / 100)"

text \<open>
  \<^verbatim>\<open>round(x, 2)\<close> on a numpy \<^verbatim>\<open>float64\<close> \<open>x\<close> goes through numpy's own rounding:
  multiply by 100, round to an integer (a tie to even), divide by 100, each step in doubles.
\<close>

definition np_round2 :: "real \<Rightarrow> real" where
  "np_round2 x = fdiv (real_of_int (round_half_even (fmul x 100))) 100"

subsection \<open>Audio: data model\<close>

text \<open>One entry of \<^verbatim>\<open>self.engine_fault_patterns\<close>; \<open>sig_name\<close> is the dictionary key.\<close>

record fault_info =
  sig_name :: string
  frequency_range :: "real \<times> real"
  sig_characteristics :: "string list"
  sig_severity :: string
  sig_urgency :: string
  sig_keywords :: "string list"

text \<open>
  The evidence strings of the source are formatted text
  (\<^verbatim>\<open>f"Dominant frequency {dominant_freq:.0f}Hz matches {fault_name}"\<close>); the model keeps
  which rule fired and the values it was formatted from.
\<close>

datatype evidence =
    DominantMatches real string
  | PeaksMatch "real list" string
  | MidDominance
  | HighMidDominance
  | HighFrequencyDominance
  | LowFrequencyDominance
  | ImpulsiveStrength real
  | RhythmicStrength real
  | ContinuousStrength real
  | NoiseStrength real

text \<open>One dictionary appended to \<^verbatim>\<open>detected_faults\<close>.\<close>

record detected_fault =
  name :: string
  display_name :: string
  confidence :: real
  severity :: string
  urgency :: string
  fault_keywords :: "string list"
  evidence :: "evidence list"
  fault_frequency_range :: "real \<times> real"
  characteristics :: "string list"

text \<open>
  One entry of \<^verbatim>\<open>sound_patterns\<close>. The per-type extras of the source (tempo, beat count,
  onset count, duration ratio) are not read by any function modelled here and are left out.
\<close>

record sound_pattern =
  pattern_type :: string
  strength :: real
  pattern_characteristics :: "string list"

text \<open>
  The fields of the dictionary returned by \<^verbatim>\<open>_analyze_frequency_spectrum\<close> that the
  repository's own code reads. When that function catches an exception it returns
  \<^verbatim>\<open>{"analysis_failed": True, ...}\<close>, which has none of them: that dictionary is \<open>None\<close>
  of \<open>frequency_analysis option\<close>, and the readers below apply the defaults of
  \<^verbatim>\<open>.get\<close>.
\<close>

record frequency_analysis =
  dominant_frequency :: real
  frequency_bands :: "(string \<times> real) list"
  peak_frequencies :: "real list"

text \<open>
  The fields of the audio-quality dictionary that are present in all its variants; the raw
  metrics and the recommendations of the success variant are left out.
\<close>

record audio_quality =
  score :: real
  rating :: string
  issues :: "string list"

text \<open>
  The dictionary returned by \<^verbatim>\<open>analyze_engine_sound\<close>. The decibel and anomaly
  sub-dictionaries and the timing metadata are passed through untouched by the source and
  are left out; \<open>total_faults_detected\<close> is absent from the failure variant.
\<close>

record analysis_result =
  analysis_successful :: bool
  analysis_failed :: bool
  error_message :: "string option"
  detected_sounds :: "string list"
  detected_faults :: "detected_fault list"
  sound_patterns :: "sound_pattern list"
  result_frequency_analysis :: "frequency_analysis option"
  result_audio_quality :: audio_quality
  overall_confidence :: real
  urgency_level :: string
  repair_keywords :: "string list"
  processing_successful :: bool
  total_faults_detected :: "nat option"

subsection \<open>Audio: the static fault table\<close>

definition engine_fault_patterns :: "fault_info list" where
  "engine_fault_patterns =
    [\<lparr>sig_name = ''spark_plug_misfire'', frequency_range = (800, 2500),
      sig_characteristics = [''irregular'', ''popping'', ''intermittent''],
      sig_severity = ''warning'', sig_urgency = ''warning'',
      sig_keywords = [''spark plug misfire'', ''engine misfire repair'', ''ignition system fix'']\<rparr>,
     \<lparr>sig_name = ''timing_chain_rattle'', frequency_range = (1200, 4000),
      sig_characteristics = [''metallic'', ''startup_noise'', ''chain_rattle''],
      sig_severity = ''critical'', sig_urgency = ''critical'',
      sig_keywords = [''timing chain rattle'', ''timing chain replacement'', ''engine timing noise'']\<rparr>,
     \<lparr>sig_name = ''worn_engine_bearings'', frequency_range = (500, 2000),
      sig_characteristics = [''deep_knocking'', ''load_dependent'', ''metallic''],
      sig_severity = ''critical'', sig_urgency = ''critical'',
      sig_keywords = [''engine bearing noise'', ''rod bearing replacement'', ''engine rebuild'']\<rparr>,
     \<lparr>sig_name = ''valve_lifter_noise'', frequency_range = (1000, 3000),
      sig_characteristics = [''ticking'', ''rhythmic'', ''top_end''],
      sig_severity = ''warning'', sig_urgency = ''warning'',
      sig_keywords = [''valve lifter noise'', ''hydraulic lifter repair'', ''valve adjustment'']\<rparr>,
     \<lparr>sig_name = ''serpentine_belt_squeal'', frequency_range = (2000, 8000),
      sig_characteristics = [''high_pitched'', ''continuous'', ''belt_related''],
      sig_severity = ''warning'', sig_urgency = ''warning'',
      sig_keywords = [''serpentine belt squeal'', ''belt replacement'', ''belt tensioner repair'']\<rparr>,
     \<lparr>sig_name = ''brake_pad_squeal'', frequency_range = (3000, 10000),
      sig_characteristics = [''very_high_pitched'', ''braking_only'', ''metallic''],
      sig_severity = ''warning'', sig_urgency = ''warning'',
      sig_keywords = [''brake pad squeal'', ''brake pad replacement'', ''brake service'']\<rparr>,
     \<lparr>sig_name = ''cv_joint_clicking'', frequency_range = (1500, 5000),
      sig_characteristics = [''clicking'', ''turning_only'', ''rhythmic''],
      sig_severity = ''warning'', sig_urgency = ''warning'',
      sig_keywords = [''CV joint clicking'', ''CV joint replacement'', ''axle repair'']\<rparr>,
     \<lparr>sig_name = ''exhaust_leak'', frequency_range = (100, 1000),
      sig_characteristics = [''hissing'', ''continuous'', ''exhaust_related''],
      sig_severity = ''normal'', sig_urgency = ''normal'',
      sig_keywords = [''exhaust leak repair'', ''muffler replacement'', ''exhaust system fix'']\<rparr>,
     \<lparr>sig_name = ''turbo_whistle'', frequency_range = (4000, 12000),
      sig_characteristics = [''whistling'', ''boost_dependent'', ''high_pitched''],
      sig_severity = ''warning'', sig_urgency = ''warning'',
      sig_keywords = [''turbo whistle'', ''turbocharger repair'', ''boost leak fix'']\<rparr>,
     \<lparr>sig_name = ''engine_knock'', frequency_range = (1000, 4000),
      sig_characteristics = [''knocking'', ''load_dependent'', ''metallic''],
      sig_severity = ''critical'', sig_urgency = ''critical'',
      sig_keywords = [''engine knock repair'', ''carbon cleaning'', ''octane booster'']\<rparr>]"

subsection \<open>Audio: readers with the defaults of \<^verbatim>\<open>dict.get\<close>\<close>

definition get_dominant_frequency :: "frequency_analysis option \<Rightarrow> real" where
  "get_dominant_frequency fa = (case fa of None \<Rightarrow> 0 | Some f \<Rightarrow> dominant_frequency f)"

definition get_frequency_bands :: "frequency_analysis option \<Rightarrow> (string \<times> real) list" where
  "get_frequency_bands fa = (case fa of None \<Rightarrow> [] | Some f \<Rightarrow> frequency_bands f)"

definition get_peak_frequencies :: "frequency_analysis option \<Rightarrow> real list" where
  "get_peak_frequencies fa = (case fa of None \<Rightarrow> [] | Some f \<Rightarrow> peak_frequencies f)"

text \<open>\<^verbatim>\<open>band_energies.get(band, 0)\<close>\<close>

definition band_energy :: "(string \<times> real) list \<Rightarrow> string \<Rightarrow> real" where
  "band_energy band_energies band =
     (case map_of band_energies band of None \<Rightarrow> 0 | Some e \<Rightarrow> e)"

text \<open>\<^verbatim>\<open>sum(band_energies.values())\<close>\<close>

definition band_energy_total :: "(string \<times> real) list \<Rightarrow> real" where
  "band_energy_total band_energies = sum_list (map snd band_energies)"

subsection \<open>Audio: \<^verbatim>\<open>_determine_urgency_level\<close>\<close>

text \<open>The first loop of the source: return at the first fault whose urgency is the one sought.\<close>

fun any_urgency :: "string \<Rightarrow> detected_fault list \<Rightarrow> bool" where
  "any_urgency u [] = False"
| "any_urgency u (fault # rest) = (if urgency fault = u then True else any_urgency u rest)"

definition determine_urgency_level :: "detected_fault list \<Rightarrow> string" where
  "determine_urgency_level faults =
     (if faults = [] then ''normal''
      else if any_urgency ''critical'' faults then ''critical''
      else if any_urgency ''warning'' faults then ''warning''
      else ''normal'')"

subsection \<open>Audio: \<^verbatim>\<open>_detect_sound_patterns\<close>\<close>

text \<open>
  The five strengths are what the helpers \<^verbatim>\<open>_analyze_rhythmic_patterns\<close>,
  \<^verbatim>\<open>_analyze_continuity\<close>, \<^verbatim>\<open>_analyze_impulsiveness\<close>, \<^verbatim>\<open>_analyze_harmonic_content\<close>
  and \<^verbatim>\<open>_analyze_noise_patterns\<close> return from librosa's features. \<open>None\<close> stands for a
  librosa call that raised inside \<^verbatim>\<open>_detect_sound_patterns\<close>, whose handler returns the
  empty list.
\<close>

record pattern_strengths =
  rhythmic_strength :: real
  continuity :: real
  impulsiveness :: real
  harmonic_strength :: real
  noise_level :: real

definition detect_sound_patterns :: "pattern_strengths option \<Rightarrow> sound_pattern list" where
  "detect_sound_patterns features =
     (case features of
        None \<Rightarrow> []
      | Some s \<Rightarrow>
          (if rhythmic_strength s > 0.4
           then [\<lparr>pattern_type = ''rhythmic'', strength = rhythmic_strength s,
                  pattern_characteristics = [''regular_intervals'', ''engine_related'', ''mechanical'']\<rparr>]
           else []) @
          (if continuity s > 0.6
           then [\<lparr>pattern_type = ''continuous'', strength = continuity s,
                  pattern_characteristics = [''sustained'', ''mechanical'', ''wear_related'']\<rparr>]
           else []) @
          (if impulsiveness s > 0.3
           then [\<lparr>pattern_type = ''impulsive'', strength = impulsiveness s,
                  pattern_characteristics = [''sudden'', ''impact'', ''combustion_related'']\<rparr>]
           else []) @
          (if harmonic_strength s > 0.3
           then [\<lparr>pattern_type = ''harmonic'', strength = harmonic_strength s,
                  pattern_characteristics = [''tonal'', ''engine_fundamental'', ''rpm_related'']\<rparr>]
           else []) @
          (if noise_level s > 0.5
           then [\<lparr>pattern_type = ''noise'', strength = noise_level s,
                  pattern_characteristics = [''random'', ''wear_related'', ''mechanical_stress'']\<rparr>]
           else []))"

subsection \<open>Audio: \<^verbatim>\<open>_detect_engine_faults\<close>\<close>

text \<open>
  The running pair \<^verbatim>\<open>(confidence, evidence)\<close> of one iteration of the loop over the table.
  Each step below is one \<^verbatim>\<open>if\<close> block of the source, in the source's order.
\<close>

type_synonym tally = "real \<times> evidence list"

definition in_range :: "real \<times> real \<Rightarrow> real \<Rightarrow> bool" where
  "in_range r f = (fst r \<le> f \<and> f \<le> snd r)"

text \<open>1. Frequency range matching: \<^verbatim>\<open>freq_range[0] <= dominant_freq <= freq_range[1]\<close>.\<close>

definition dominant_step :: "fault_info \<Rightarrow> real \<Rightarrow> tally \<Rightarrow> tally" where
  "dominant_step fi dominant_freq t =
     (if in_range (frequency_range fi) dominant_freq
      then (fst t + 0.3, snd t @ [DominantMatches dominant_freq (sig_name fi)])
      else t)"

text \<open>\<^verbatim>\<open>confidence += 0.2 * min(len(matching_peaks) / 3, 1.0)\<close>\<close>

definition peak_step :: "fault_info \<Rightarrow> real list \<Rightarrow> tally \<Rightarrow> tally" where
  "peak_step fi peaks t =
     (let matching_peaks = filter (in_range (frequency_range fi)) peaks in
      if matching_peaks \<noteq> []
      then (fst t + 0.2 * min (real (length matching_peaks) / 3) 1.0,
            snd t @ [PeaksMatch matching_peaks (sig_name fi)])
      else t)"

text \<open>2. Frequency band energy analysis: an \<^verbatim>\<open>if/elif\<close> chain on the fault's name.\<close>

definition band_step :: "string \<Rightarrow> (string \<times> real) list \<Rightarrow> tally \<Rightarrow> tally" where
  "band_step fault band_energies t =
     (if fault \<in> set [''spark_plug_misfire'', ''valve_lifter_noise'']
      then (if band_energy band_energies ''mid'' > band_energy band_energies ''bass''
            then (fst t + 0.2, snd t @ [MidDominance]) else t)
      else if fault \<in> set [''timing_chain_rattle'', ''engine_knock'']
      then (if band_energy band_energies ''high_mid'' > band_energy band_energies ''sub_bass''
            then (fst t + 0.2, snd t @ [HighMidDominance]) else t)
      else if fault \<in> set [''serpentine_belt_squeal'', ''brake_pad_squeal'']
      then (if band_energy band_energies ''presence'' > band_energy_total band_energies * 0.3
            then (fst t + 0.3, snd t @ [HighFrequencyDominance]) else t)
      else if fault \<in> set [''worn_engine_bearings'', ''exhaust_leak'']
      then (if band_energy band_energies ''bass'' > band_energy band_energies ''presence''
            then (fst t + 0.2, snd t @ [LowFrequencyDominance]) else t)
      else t)"

text \<open>3. Sound pattern matching: the body of \<^verbatim>\<open>for pattern in sound_patterns\<close>.\<close>

definition pattern_step :: "string \<Rightarrow> tally \<Rightarrow> sound_pattern \<Rightarrow> tally" where
  "pattern_step fault t p =
     (if fault \<in> set [''spark_plug_misfire''] \<and> pattern_type p = ''impulsive''
      then (fst t + strength p * 0.3, snd t @ [ImpulsiveStrength (strength p)])
      else if fault \<in> set [''timing_chain_rattle'', ''valve_lifter_noise'', ''cv_joint_clicking'']
              \<and> pattern_type p = ''rhythmic''
      then (fst t + strength p * 0.3, snd t @ [RhythmicStrength (strength p)])
      else if fault \<in> set [''serpentine_belt_squeal'', ''brake_pad_squeal'', ''turbo_whistle'']
              \<and> pattern_type p = ''continuous''
      then (fst t + strength p * 0.3, snd t @ [ContinuousStrength (strength p)])
      else if fault \<in> set [''worn_engine_bearings'', ''engine_knock'']
              \<and> pattern_type p = ''noise''
      then (fst t + strength p * 0.2, snd t @ [NoiseStrength (strength p)])
      else t)"

text \<open>The accumulated \<^verbatim>\<open>(confidence, evidence)\<close> of one signature, before the threshold.\<close>

definition score_fault ::
  "fault_info \<Rightarrow> frequency_analysis option \<Rightarrow> sound_pattern list \<Rightarrow> tally" where
  "score_fault fi fa patterns =
     (let t0 = (0, []);
          t1 = dominant_step fi (get_dominant_frequency fa) t0;
          t2 = peak_step fi (get_peak_frequencies fa) t1;
          t3 = band_step (sig_name fi) (get_frequency_bands fa) t2
      in foldl (pattern_step (sig_name fi)) t3 patterns)"

text \<open>\<^verbatim>\<open>fault_name.replace('_', ' ').title()\<close> on ASCII text.\<close>

definition is_ascii_lower :: "char \<Rightarrow> bool" where
  "is_ascii_lower c = (97 \<le> (of_char c :: nat) \<and> (of_char c :: nat) \<le> 122)"

definition is_ascii_upper :: "char \<Rightarrow> bool" where
  "is_ascii_upper c = (65 \<le> (of_char c :: nat) \<and> (of_char c :: nat) \<le> 90)"

definition ascii_upper :: "char \<Rightarrow> char" where
  "ascii_upper c = (if is_ascii_lower c then char_of ((of_char c :: nat) - 32) else c)"

definition ascii_lower :: "char \<Rightarrow> char" where
  "ascii_lower c = (if is_ascii_upper c then char_of ((of_char c :: nat) + 32) else c)"

fun title_from :: "bool \<Rightarrow> string \<Rightarrow> string" where
  "title_from prev_cased [] = []"
| "title_from prev_cased (c # cs) =
     (if is_ascii_lower c \<or> is_ascii_upper c
      then (if prev_cased then ascii_lower c else ascii_upper c) # title_from True cs
      else c # title_from False cs)"

definition title_name :: "string \<Rightarrow> string" where
  "title_name fault =
     title_from False (map (\<lambda>c. if c = CHR ''_'' then CHR '' '' else c) fault)"

definition make_fault :: "fault_info \<Rightarrow> tally \<Rightarrow> detected_fault" where
  "make_fault fi t =
     \<lparr>name = sig_name fi,
      display_name = title_name (sig_name fi),
      confidence = min (fst t) 1.0,
      severity = sig_severity fi,
      urgency = sig_urgency fi,
      fault_keywords = sig_keywords fi,
      evidence = snd t,
      fault_frequency_range = frequency_range fi,
      characteristics = sig_characteristics fi\<rparr>"

text \<open>
  The loop over the table: a signature is appended when its confidence is above 0.4, so the
  list is in table order.
\<close>

fun check_fault_patterns ::
  "fault_info list \<Rightarrow> frequency_analysis option \<Rightarrow> sound_pattern list \<Rightarrow> detected_fault list" where
  "check_fault_patterns [] fa patterns = []"
| "check_fault_patterns (fi # rest) fa patterns =
     (if fst (score_fault fi fa patterns) > 0.4
      then make_fault fi (score_fault fi fa patterns) # check_fault_patterns rest fa patterns
      else check_fault_patterns rest fa patterns)"

text \<open>
  \<^verbatim>\<open>xs.sort(key=k, reverse=True)\<close>: CPython reverses the list, sorts it stably in
  ascending key order and reverses the result.
\<close>

definition sort_reverse :: "('a \<Rightarrow> real) \<Rightarrow> 'a list \<Rightarrow> 'a list" where
  "sort_reverse k xs = rev (sort_key k (rev xs))"

definition detect_engine_faults ::
  "frequency_analysis option \<Rightarrow> sound_pattern list \<Rightarrow> detected_fault list" where
  "detect_engine_faults fa patterns =
     sort_reverse confidence (check_fault_patterns engine_fault_patterns fa patterns)"

subsection \<open>Audio: the scoring part of \<^verbatim>\<open>_analyze_audio_quality\<close>\<close>

text \<open>
  The four metrics (signal-to-noise ratio and dynamic range in dB, clipping and silence
  ratios) and the duration in seconds are what numpy computes from the samples; the score,
  the issues and the rating are the repository's own arithmetic on them. The score is not
  clipped. (When the numpy part raises, the handler of the source returns score 0.3 rated
  \<open>poor\<close> instead.)
\<close>

definition assess_audio_quality :: "real \<Rightarrow> real \<Rightarrow> real \<Rightarrow> real \<Rightarrow> real \<Rightarrow> audio_quality" where
  "assess_audio_quality snr dynamic_range clipping_ratio silence_ratio duration =
     (let quality_score =
            min (snr / 30) 1.0 * 0.3
          + min (dynamic_range / 40) 1.0 * 0.3
          + (1.0 - clipping_ratio) * 0.2
          + (1.0 - silence_ratio) * 0.2;
          found =
            (if snr < 15 then [''High background noise''] else []) @
            (if dynamic_range < 15 then [''Low dynamic range''] else []) @
            (if clipping_ratio > 0.01 then [''Audio clipping detected''] else []) @
            (if silence_ratio > 0.5 then [''Too much silence in recording''] else []) @
            (if duration < 3 then [''Recording too short for reliable analysis''] else []);
          quality_rating =
            (if quality_score > 0.8 then ''excellent''
             else if quality_score > 0.6 then ''good''
             else if quality_score > 0.4 then ''fair''
             else ''poor'')
      in \<lparr>score = round3 quality_score, rating = quality_rating, issues = found\<rparr>)"

subsection \<open>Audio: keywords and overall confidence\<close>

text \<open>
  \<^verbatim>\<open>list(set(keywords))[:8]\<close>. The iteration order of a Python set of strings depends on
  the process's hash seed; \<open>set_order\<close> is that order, a parameter of the model.
\<close>

definition extract_repair_keywords ::
  "(string list \<Rightarrow> string list) \<Rightarrow> detected_fault list \<Rightarrow> string list" where
  "extract_repair_keywords set_order faults =
     take 8 (set_order (concat (map fault_keywords faults)))"

definition severity_weight :: "string \<Rightarrow> real" where
  "severity_weight s = (if s = ''critical'' then 1.0 else 0.8)"

text \<open>The loop \<^verbatim>\<open>fault_confidence += fault_conf * severity_weight\<close>, from 0.\<close>

definition weighted_fault_confidence :: "detected_fault list \<Rightarrow> real" where
  "weighted_fault_confidence faults =
     foldl (\<lambda>total f. total + confidence f * severity_weight (severity f)) 0 faults"

text \<open>\<^verbatim>\<open>np.mean\<close> of a non-empty list.\<close>

definition mean :: "real list \<Rightarrow> real" where
  "mean xs = sum_list xs / real (length xs)"

definition calculate_enhanced_confidence ::
  "detected_fault list \<Rightarrow> audio_quality \<Rightarrow> frequency_analysis option \<Rightarrow> sound_pattern list \<Rightarrow> real" where
  "calculate_enhanced_confidence faults quality fa patterns =
     (let c0 = 0;
          quality_score = score quality;
          c1 = c0 + quality_score * 0.3;
          c2 = (if faults \<noteq> []
                then c1 + (weighted_fault_confidence faults / real (length faults)) * 0.4
                else c1 + 0.2);
          c3 = (if get_dominant_frequency fa > 0 then c2 + 0.2 else c2);
          c4 = (if patterns \<noteq> [] then c3 + mean (map strength patterns) * 0.1 else c3)
      in min c4 1.0)"

subsection \<open>Audio: \<^verbatim>\<open>_create_failed_analysis\<close> and \<^verbatim>\<open>analyze_engine_sound\<close>\<close>

definition create_failed_analysis :: "string \<Rightarrow> analysis_result" where
  "create_failed_analysis msg =
     \<lparr>analysis_successful = False,
      analysis_failed = True,
      error_message = Some msg,
      detected_sounds = [],
      detected_faults = [],
      sound_patterns = [],
      result_frequency_analysis = None,
      result_audio_quality = \<lparr>score = 0.0, rating = ''failed'', issues = [msg]\<rparr>,
      overall_confidence = 0.0,
      urgency_level = ''normal'',
      repair_keywords = [''audio analysis failed'', ''re-record audio''],
      processing_successful = False,
      total_faults_detected = None\<rparr>"

text \<open>
  What staging the bytes in a temporary file and \<^verbatim>\<open>librosa.load\<close> deliver:
  \<open>StagingRaised e\<close> is an exception (with text \<open>e\<close>) of writing or removing the temporary
  file, caught by the outer handler; \<open>LoadRaised\<close> is an exception of \<^verbatim>\<open>librosa.load\<close>;
  \<open>Loaded y\<close> is the decoded mono waveform.
\<close>

datatype load_outcome = StagingRaised string | LoadRaised | Loaded "real list"

text \<open>
  \<open>quality\<close>, \<open>fa\<close> and \<open>features\<close> are what \<^verbatim>\<open>_analyze_audio_quality\<close>,
  \<^verbatim>\<open>_analyze_frequency_spectrum\<close> and the librosa part of \<^verbatim>\<open>_detect_sound_patterns\<close>
  return for the waveform; each of these catches its own exceptions and returns a
  dictionary, so none of them leaves \<^verbatim>\<open>analyze_engine_sound\<close> through the outer handler.
\<close>

definition analyze_engine_sound ::
  "(string list \<Rightarrow> string list) \<Rightarrow> load_outcome \<Rightarrow> audio_quality \<Rightarrow>
   frequency_analysis option \<Rightarrow> pattern_strengths option \<Rightarrow> analysis_result" where
  "analyze_engine_sound set_order outcome quality fa features =
     (case outcome of
        StagingRaised e \<Rightarrow> create_failed_analysis (''Analysis failed: '' @ e)
      | LoadRaised \<Rightarrow> create_failed_analysis ''Audio file could not be loaded or is corrupted''
      | Loaded y \<Rightarrow>
          if length y = 0 then create_failed_analysis ''Audio file is empty''
          else
            (let patterns = detect_sound_patterns features;
                 faults = detect_engine_faults fa patterns
             in \<lparr>analysis_successful = True,
                 analysis_failed = False,
                 error_message = None,
                 detected_sounds = map name faults,
                 detected_faults = faults,
                 sound_patterns = patterns,
                 result_frequency_analysis = fa,
                 result_audio_quality = quality,
                 overall_confidence = calculate_enhanced_confidence faults quality fa patterns,
                 urgency_level = determine_urgency_level faults,
                 repair_keywords = extract_repair_keywords set_order faults,
                 processing_successful = True,
                 total_faults_detected = Some (length faults)\<rparr>))"

subsection \<open>Audio: \<^verbatim>\<open>validate_audio_format\<close> and the head of \<^verbatim>\<open>diagnose_engine_sound\<close>\<close>

definition supported_formats :: "(string \<times> string list) list" where
  "supported_formats =
     [(''audio/wav'', [''.wav'']),
      (''audio/mpeg'', [''.mp3'']),
      (''audio/mp4'', [''.m4a'']),
      (''audio/x-m4a'', [''.m4a'']),
      (''audio/ogg'', [''.ogg'']),
      (''audio/flac'', [''.flac''])]"

text \<open>Python's \<^verbatim>\<open>repr\<close> of a list of plain strings, as the f-string prints it.\<close>

definition quoted :: "string \<Rightarrow> string" where
  "quoted s = [CHR 0x27] @ s @ [CHR 0x27]"

fun join_comma :: "string list \<Rightarrow> string" where
  "join_comma [] = []"
| "join_comma [s] = s"
| "join_comma (s # t # rest) = s @ '', '' @ join_comma (t # rest)"

definition list_repr :: "string list \<Rightarrow> string" where
  "list_repr xs = ''['' @ join_comma (map quoted xs) @ '']''"

text \<open>
  \<^verbatim>\<open>os.path.splitext(p)[1]\<close> (POSIX): the extension starts at the last dot of the last
  path component, unless only dots come before it in that component.
\<close>

definition splitext_ext :: "string \<Rightarrow> string" where
  "splitext_ext p =
     (let base = rev (takeWhile (\<lambda>c. c \<noteq> CHR ''/'') (rev p)) in
      if CHR ''.'' \<notin> set base then []
      else
        (let ext = CHR ''.'' # rev (takeWhile (\<lambda>c. c \<noteq> CHR ''.'') (rev base));
             stem = take (length base - length ext) base
         in if list_ex (\<lambda>c. c \<noteq> CHR ''.'') stem then ext else []))"

text \<open>
  \<open>content_type\<close> and \<open>filename\<close> are optional in an upload: \<open>None\<close> is Python's
  \<^verbatim>\<open>None\<close>. \<^verbatim>\<open>None.startswith\<close> raises, and the handler of the function turns that
  into its last message. \<^verbatim>\<open>if filename:\<close> is false for \<^verbatim>\<open>None\<close> and for the empty string.
\<close>

definition validate_audio_format :: "string option \<Rightarrow> string option \<Rightarrow> bool \<times> string" where
  "validate_audio_format content_type filename =
     (case content_type of
        None \<Rightarrow> (False, ''Audio format validation failed'')
      | Some ct \<Rightarrow>
          if \<not> prefix ''audio/'' ct then (False, ''File must be an audio file'')
          else
            (case map_of supported_formats ct of
               None \<Rightarrow>
                 (False, ''Unsupported audio format. Supported formats: ''
                           @ list_repr (map fst supported_formats))
             | Some expected_extensions \<Rightarrow>
                 (case filename of
                    None \<Rightarrow> (True, ''Valid audio format'')
                  | Some fn \<Rightarrow>
                      if fn = [] then (True, ''Valid audio format'')
                      else
                        (let file_ext = splitext_ext (map ascii_lower fn) in
                         if file_ext \<notin> set expected_extensions
                         then (False, ''File extension '' @ file_ext
                                        @ '' doesn'' @ [CHR 0x27] @ ''t match content type '' @ ct)
                         else (True, ''Valid audio format'')))))"

text \<open>
  The head of the route \<^verbatim>\<open>diagnose_engine_sound\<close>, up to the check of the analysis
  result. The log records, in order, which effects were reached; \<open>Decode\<close> is the call of
  \<^verbatim>\<open>analyze_engine_sound\<close>, the only place that decodes the bytes. \<open>user_exists\<close> is the
  answer of the user lookup, \<open>storage_error\<close> an exception of the upload to object storage
  (surfacing as status 500 through the route's last handler). \<open>Analysed r\<close> stands for the
  route going on to narration and persistence with the analysis \<open>r\<close>.
\<close>

datatype event = VerifyUser | ValidateFormat | ReadBytes | StoreUpload | Decode

datatype route_outcome = HTTPError nat string | Analysed analysis_result

definition diagnose_engine_sound ::
  "bool \<Rightarrow> string option \<Rightarrow> string option \<Rightarrow> string option \<Rightarrow>
   (string list \<Rightarrow> string list) \<Rightarrow> load_outcome \<Rightarrow> audio_quality \<Rightarrow>
   frequency_analysis option \<Rightarrow> pattern_strengths option \<Rightarrow> event list \<times> route_outcome" where
  "diagnose_engine_sound user_exists content_type filename storage_error
       set_order outcome quality fa features =
     (if \<not> user_exists then ([VerifyUser], HTTPError 404 ''User not found'')
      else
        (let (is_valid, validation_message) = validate_audio_format content_type filename in
         if \<not> is_valid then ([VerifyUser, ValidateFormat], HTTPError 400 validation_message)
         else
           (case storage_error of
              Some e \<Rightarrow>
                ([VerifyUser, ValidateFormat, ReadBytes, StoreUpload],
                 HTTPError 500 (''Engine sound diagnosis failed: '' @ e))
            | None \<Rightarrow>
                (let audio_analysis = analyze_engine_sound set_order outcome quality fa features in
                 if analysis_failed audio_analysis
                 then ([VerifyUser, ValidateFormat, ReadBytes, StoreUpload, Decode],
                       HTTPError 400 (''Audio analysis failed: '' @
                          (case error_message audio_analysis of
                             None \<Rightarrow> ''Unknown error'' | Some m \<Rightarrow> m)))
                 else ([VerifyUser, ValidateFormat, ReadBytes, StoreUpload, Decode],
                       Analysed audio_analysis)))))"

text \<open>
  The next two steps of the route. The narration service is called with the analysis and
  returns a dictionary: \<open>Narrated kw\<close>, where \<open>kw\<close> is its entry \<^verbatim>\<open>repair_keywords\<close>
  (\<open>None\<close> when the key is absent), or it raises (\<open>NarrationRaised\<close>, status 500). The
  tutorial search is then called with
  \<^verbatim>\<open>gemini_analysis.get("repair_keywords", ["engine diagnostic repair"])\<close>.
  \<open>tutorial_search_input\<close> is the list the tutorial search is called with, or \<open>None\<close> when
  the route does not reach that call. No line of the repository reads the entry
  \<^verbatim>\<open>repair_keywords\<close> of the analysis.
\<close>

datatype narration = NarrationRaised string | Narrated "string list option"

definition tutorial_search_input :: "route_outcome \<Rightarrow> narration \<Rightarrow> string list option" where
  "tutorial_search_input reached narrated =
     (case reached of
        HTTPError code detail \<Rightarrow> None
      | Analysed audio_analysis \<Rightarrow>
          (case narrated of
             NarrationRaised e \<Rightarrow> None
           | Narrated kw \<Rightarrow>
               Some (case kw of None \<Rightarrow> [''engine diagnostic repair''] | Some search_keywords \<Rightarrow> search_keywords)))"

subsection \<open>Image: data model\<close>

text \<open>
  What OpenCV reports for one external contour of a colour mask: \<^verbatim>\<open>cv2.contourArea\<close>,
  \<^verbatim>\<open>cv2.boundingRect\<close> and the mean of the V channel (0 to 255) over the bounding box.
\<close>

record contour_region =
  contour_area :: real
  rect_x :: int
  rect_y :: int
  rect_w :: int
  rect_h :: int
  value_mean :: real

record light =
  color :: string
  position :: "int \<times> int"
  bounding_box :: "int \<times> int \<times> int \<times> int"
  light_area :: int
  aspect_ratio :: real
  brightness :: real
  light_confidence :: real
  light_severity :: string

record image_quality =
  quality_score :: real
  quality_issues :: "string list"

record image_result =
  dashboard_detected :: bool
  detected_lights :: "light list"
  result_image_quality :: image_quality
  image_overall_confidence :: real
  image_processing_successful :: bool
  total_lights_found :: "nat option"
  image_error :: "string option"

text \<open>The keys of \<^verbatim>\<open>self.color_ranges\<close> with their HSV bounds, in declaration order.\<close>

definition color_ranges :: "(string \<times> (nat \<times> nat \<times> nat) list) list" where
  "color_ranges =
     [(''red'', [(0, 50, 50), (10, 255, 255), (170, 50, 50), (180, 255, 255)]),
      (''yellow'', [(20, 50, 50), (30, 255, 255)]),
      (''orange'', [(10, 50, 50), (20, 255, 255)]),
      (''green'', [(40, 50, 50), (80, 255, 255)]),
      (''blue'', [(100, 50, 50), (130, 255, 255)]),
      (''amber'', [(15, 50, 50), (25, 255, 255)])]"

subsection \<open>Image: light confidence, severity and \<^verbatim>\<open>_detect_color_lights\<close>\<close>

text \<open>
  The three arguments are doubles. Each \<^verbatim>\<open>confidence += k\<close> is an addition of doubles, in
  the order of the source, and each bound is the double of its literal (50, 500, 20, 1000,
  0.5, 2.0 and 3.0 are doubles as written).
\<close>

definition calculate_light_confidence :: "real \<Rightarrow> real \<Rightarrow> real \<Rightarrow> real" where
  "calculate_light_confidence area ratio bright =
     (let c0 = 0;
          c1 = (if 50 < area \<and> area < 500 then fadd c0 (fl 0.4)
                else if 20 < area \<and> area < 1000 then fadd c0 (fl 0.2) else c0);
          c2 = (if 0.5 < ratio \<and> ratio < 2.0 then fadd c1 (fl 0.3)
                else if fl 0.3 < ratio \<and> ratio < 3.0 then fadd c1 (fl 0.1) else c1);
          c3 = (if bright > fl 0.6 then fadd c2 (fl 0.3)
                else if bright > fl 0.4 then fadd c2 (fl 0.2)
                else if bright > fl 0.2 then fadd c2 (fl 0.1) else c2)
      in min c3 1.0)"

text \<open>\<^verbatim>\<open>severity_map.get(color, 'medium')\<close>\<close>

definition map_color_to_severity :: "string \<Rightarrow> string" where
  "map_color_to_severity c =
     (case map_of [(''red'', ''critical''), (''orange'', ''high''), (''amber'', ''high''),
                   (''yellow'', ''medium''), (''blue'', ''low''), (''green'', ''low'')] c of
        None \<Rightarrow> ''medium'' | Some s \<Rightarrow> s)"

text \<open>
  The dictionary of one accepted light. The aspect ratio and the confidence are Python
  floats, the brightness is a numpy \<^verbatim>\<open>float64\<close>; each is recorded rounded to two decimals.
\<close>

definition make_light :: "string \<Rightarrow> contour_region \<Rightarrow> real \<Rightarrow> real \<Rightarrow> real \<Rightarrow> light" where
  "make_light color_name c ratio bright conf =
     \<lparr>color = color_name,
      position = (rect_x c + rect_w c div 2, rect_y c + rect_h c div 2),
      bounding_box = (rect_x c, rect_y c, rect_w c, rect_h c),
      light_area = int_trunc (contour_area c),
      aspect_ratio = py_round2 ratio,
      brightness = np_round2 bright,
      light_confidence = py_round2 conf,
      light_severity = map_color_to_severity color_name\<rparr>"

text \<open>
  The loop \<^verbatim>\<open>for contour in contours\<close> of \<^verbatim>\<open>_detect_color_lights\<close>. The aspect ratio
  \<^verbatim>\<open>w / h\<close> and the brightness \<^verbatim>\<open>mean / 255.0\<close> are quotients of doubles; the
  confidence is compared with the double of \<^verbatim>\<open>0.3\<close>.
\<close>

fun detect_color_lights :: "string \<Rightarrow> contour_region list \<Rightarrow> light list" where
  "detect_color_lights color_name [] = []"
| "detect_color_lights color_name (c # contours) =
     (if 20 < contour_area c \<and> contour_area c < 2000
      then
        (let ratio = (if rect_h c > 0 then fdiv (real_of_int (rect_w c)) (real_of_int (rect_h c)) else 0);
             bright = fdiv (value_mean c) 255.0;
             conf = calculate_light_confidence (contour_area c) ratio bright
         in if conf > fl 0.3
            then make_light color_name c ratio bright conf # detect_color_lights color_name contours
            else detect_color_lights color_name contours)
      else detect_color_lights color_name contours)"

subsection \<open>Image: \<^verbatim>\<open>_remove_overlapping_lights\<close> and \<^verbatim>\<open>_detect_warning_lights\<close>\<close>

definition distance :: "light \<Rightarrow> light \<Rightarrow> real" where
  "distance a b =
     sqrt (real_of_int ((fst (position a) - fst (position b))\<^sup>2
                        + (snd (position a) - snd (position b))\<^sup>2))"

text \<open>The inner loop over \<^verbatim>\<open>filtered_lights\<close>, with its \<^verbatim>\<open>break\<close>.\<close>

fun is_duplicate :: "light \<Rightarrow> light list \<Rightarrow> bool" where
  "is_duplicate l [] = False"
| "is_duplicate l (existing # rest) =
     (if distance l existing < 30 then True else is_duplicate l rest)"

text \<open>The outer loop; \<open>filtered\<close> is \<^verbatim>\<open>filtered_lights\<close> so far.\<close>

fun filter_lights :: "light list \<Rightarrow> light list \<Rightarrow> light list" where
  "filter_lights [] filtered = filtered"
| "filter_lights (l # lights) filtered =
     filter_lights lights (if is_duplicate l filtered then filtered else filtered @ [l])"

definition remove_overlapping_lights :: "light list \<Rightarrow> light list" where
  "remove_overlapping_lights lights =
     (if length lights \<le> 1 then lights
      else filter_lights (sort_reverse light_confidence lights) [])"

text \<open>
  \<open>contours_of c\<close> are the external contours OpenCV finds in the mask of colour \<open>c\<close>
  (for red, the union of its two hue ranges). The colours are visited in the order of
  \<open>color_ranges\<close>; the result is deduplicated, then sorted again.
\<close>

definition detect_warning_lights :: "(string \<Rightarrow> contour_region list) \<Rightarrow> light list" where
  "detect_warning_lights contours_of =
     sort_reverse light_confidence
       (remove_overlapping_lights
          (concat (map (\<lambda>(color_name, ranges). detect_color_lights color_name (contours_of color_name))
                       color_ranges)))"

subsection \<open>Image: \<^verbatim>\<open>_calculate_overall_confidence\<close> and \<^verbatim>\<open>analyze_dashboard_image\<close>\<close>

definition calculate_overall_confidence :: "light list \<Rightarrow> bool \<Rightarrow> image_quality \<Rightarrow> real" where
  "calculate_overall_confidence lights dashboard quality =
     (let c0 = 0;
          c1 = (if dashboard then c0 + 0.3 else c0);
          c2 = c1 + quality_score quality * 0.3;
          c3 = (if lights \<noteq> [] then c2 + mean (map light_confidence lights) * 0.4 else c2 + 0.2)
      in min c3 1.0)"

text \<open>
  What \<^verbatim>\<open>cv2.imdecode\<close> and the OpenCV-backed sub-analyses deliver for a buffer:
  \<open>DecodeRaised e\<close> is an exception with text \<open>e\<close>, \<open>DecodedNone\<close> is the \<^verbatim>\<open>None\<close> that
  \<^verbatim>\<open>cv2.imdecode\<close> returns for a buffer it cannot decode, and \<open>Decoded d cs q\<close> is an image
  with the answer \<open>d\<close> of \<^verbatim>\<open>_detect_dashboard_area\<close>, the contours \<open>cs\<close> of each colour mask
  and the result \<open>q\<close> of \<^verbatim>\<open>_analyze_image_quality\<close>.
\<close>

datatype decode_outcome =
    DecodeRaised string
  | DecodedNone
  | Decoded bool "string \<Rightarrow> contour_region list" image_quality

text \<open>
  The dictionary that the handler of \<^verbatim>\<open>analyze_dashboard_image\<close> returns for an exception
  with text \<open>e\<close>; the scores 0.5 and 0.3 are literals of the source.
\<close>

definition failed_image_analysis :: "string \<Rightarrow> image_result" where
  "failed_image_analysis e =
     \<lparr>dashboard_detected = False,
      detected_lights = [],
      result_image_quality = \<lparr>quality_score = 0.5, quality_issues = [''Analysis failed'']\<rparr>,
      image_overall_confidence = 0.3,
      image_processing_successful = False,
      total_lights_found = None,
      image_error = Some e\<rparr>"

definition analyze_dashboard_image :: "decode_outcome \<Rightarrow> image_result" where
  "analyze_dashboard_image outcome =
     (case outcome of
        DecodeRaised e \<Rightarrow> failed_image_analysis e
      | DecodedNone \<Rightarrow> failed_image_analysis ''Could not decode image''
      | Decoded dashboard contours_of quality \<Rightarrow>
          (let lights = detect_warning_lights contours_of in
           \<lparr>dashboard_detected = dashboard,
            detected_lights = lights,
            result_image_quality = quality,
            image_overall_confidence = calculate_overall_confidence lights dashboard quality,
            image_processing_successful = True,
            total_lights_found = Some (length lights),
            image_error = None\<rparr>))"

subsection \<open>Deduplication as the specification words it\<close>

text \<open>
  The greedy pass in the words of the specification, with the bound the source uses: going
  through the candidates in the given order, keep a light if and only if its centre is at
  distance at least 30 from the centre of every light kept so far.
\<close>

fun keep_separated :: "light list \<Rightarrow> light list \<Rightarrow> light list" where
  "keep_separated [] kept = kept"
| "keep_separated (l # lights) kept =
     keep_separated lights
       (if \<forall>e\<in>set kept. 30 \<le> distance l e then kept @ [l] else kept)"

subsection \<open>Worked inputs\<close>

text \<open>
  A spectrum dominated by 1500 Hz with three peaks nearby and most energy in the mid band,
  and a single rhythmic pattern of strength 0.8.
\<close>

definition example_spectrum :: "frequency_analysis option" where
  "example_spectrum =
     Some \<lparr>dominant_frequency = 1500,
           frequency_bands = [(''sub_bass'', 0), (''bass'', 1), (''low_mid'', 0), (''mid'', 10),
                              (''high_mid'', 5), (''presence'', 0), (''brilliance'', 0)],
           peak_frequencies = [1500, 1600, 1700]\<rparr>"

definition example_patterns :: "sound_pattern list" where
  "example_patterns =
     [\<lparr>pattern_type = ''rhythmic'', strength = 0.8,
       pattern_characteristics = [''regular_intervals'', ''engine_related'', ''mechanical'']\<rparr>]"

text \<open>A red light centred at \<open>(x, y)\<close> with recorded confidence \<open>c\<close>.\<close>

definition example_light :: "int \<Rightarrow> int \<Rightarrow> real \<Rightarrow> light" where
  "example_light x y c =
     \<lparr>color = ''red'', position = (x, y), bounding_box = (x - 8, y - 8, 16, 16),
      light_area = 200, aspect_ratio = 1, brightness = 0.8,
      light_confidence = c, light_severity = ''critical''\<rparr>"

text \<open>A red contour of area 200 in a 16 by 16 box whose mean V value is 204 (0.8 of 255).\<close>

definition example_contour :: contour_region where
  "example_contour =
     \<lparr>contour_area = 200, rect_x = 100, rect_y = 100, rect_w = 16, rect_h = 16, value_mean = 204\<rparr>"

text \<open>
  A small dim contour: area 30 (area score 0.2) in a 6 by 15 box (aspect ratio 0.4, score
  0.1) with mean V value 40 (brightness below 0.2, score 0).
\<close>

definition threshold_contour :: contour_region where
  "threshold_contour =
     \<lparr>contour_area = 30, rect_x = 100, rect_y = 100, rect_w = 6, rect_h = 15, value_mean = 40\<rparr>"

text \<open>
  A large dim square contour: area 1500 (area score 0) in a 40 by 40 box (aspect ratio 1,
  score 0.3) with mean V value 40 (score 0).
\<close>

definition square_contour :: contour_region where
  "square_contour =
     \<lparr>contour_area = 1500, rect_x = 100, rect_y = 100, rect_w = 40, rect_h = 40, value_mean = 40\<rparr>"

section \<open>Properties\<close>

subsection \<open>Urgency\<close>

lemma any_urgency_iff: "any_urgency u fs \<longleftrightarrow> (\<exists>f\<in>set fs. urgency f = u)"
  by (induction fs) auto

text \<open>
  Claim C3. The aggregate urgency level of a list of detected faults is \<open>critical\<close> when
  some fault has urgency \<open>critical\<close>, else \<open>warning\<close> when some fault has urgency
  \<open>warning\<close>, else \<open>normal\<close> (the empty list included). It depends on the faults present
  only, not on their order.
\<close>

theorem determine_urgency_level_dominance:
  "determine_urgency_level faults =
     (if \<exists>f\<in>set faults. urgency f = ''critical'' then ''critical''
      else if \<exists>f\<in>set faults. urgency f = ''warning'' then ''warning''
      else ''normal'')
   \<and> (\<forall>faults'. set faults' = set faults \<longrightarrow>
          determine_urgency_level faults' = determine_urgency_level faults)"
  by (auto simp: determine_urgency_level_def any_urgency_iff)

text \<open>
  A warning fault listed before a critical one: the level is \<open>critical\<close>, and swapping the
  two changes nothing.
\<close>

theorem determine_urgency_level_dominance_witness:
  "determine_urgency_level
     [make_fault (engine_fault_patterns ! 0) (0.5, []), make_fault (engine_fault_patterns ! 1) (0.45, [])]
   = ''critical''
   \<and> determine_urgency_level
     [make_fault (engine_fault_patterns ! 1) (0.45, []), make_fault (engine_fault_patterns ! 0) (0.5, [])]
   = determine_urgency_level
     [make_fault (engine_fault_patterns ! 0) (0.5, []), make_fault (engine_fault_patterns ! 1) (0.45, [])]"
  using determine_urgency_level_dominance
    [of "[make_fault (engine_fault_patterns ! 0) (0.5, []), make_fault (engine_fault_patterns ! 1) (0.45, [])]"]
  by (simp add: make_fault_def engine_fault_patterns_def insert_commute)

subsection \<open>The failure variant of the audio analysis\<close>

lemma failure_variant_flags:
  "analysis_failed (analyze_engine_sound set_order outcome quality fa features)
     \<longleftrightarrow> \<not> analysis_successful (analyze_engine_sound set_order outcome quality fa features)"
  by (cases outcome) (auto simp: analyze_engine_sound_def create_failed_analysis_def Let_def)

lemma route_stops_on_failure:
  "analysis_failed (analyze_engine_sound set_order outcome quality fa features) \<Longrightarrow>
   \<exists>code detail.
     snd (diagnose_engine_sound user_exists content_type filename storage_error
            set_order outcome quality fa features) = HTTPError code detail"
  by (cases "validate_audio_format content_type filename")
     (auto simp: diagnose_engine_sound_def Let_def split: option.splits)

text \<open>
  Claim C10, as stated, fails in its last part. An upload that cannot be decoded gives the
  failure variant; the route answers status 400 and never calls the tutorial search, so that
  collaborator receives no keyword list at all, whatever the narration service would return.
\<close>

theorem failure_search_counterexample:
  "\<not> analysis_successful
       (analyze_engine_sound remdups LoadRaised \<lparr>score = 0.3, rating = ''poor'', issues = []\<rparr> None None)
   \<and> snd (diagnose_engine_sound True (Some ''audio/wav'') (Some ''engine.wav'') None remdups LoadRaised
             \<lparr>score = 0.3, rating = ''poor'', issues = []\<rparr> None None)
       = HTTPError 400 ''Audio analysis failed: Audio file could not be loaded or is corrupted''
   \<and> tutorial_search_input
       (snd (diagnose_engine_sound True (Some ''audio/wav'') (Some ''engine.wav'') None remdups LoadRaised
               \<lparr>score = 0.3, rating = ''poor'', issues = []\<rparr> None None))
       (Narrated (Some [''engine maintenance''])) = None"
  by (simp add: diagnose_engine_sound_def validate_audio_format_def supported_formats_def
      splitext_ext_def ascii_lower_def is_ascii_upper_def analyze_engine_sound_def
      create_failed_analysis_def tutorial_search_input_def Let_def)

text \<open>
  Claim C10, amended. Whenever \<open>analyze_engine_sound\<close> returns \<open>analysis_successful = False\<close>,
  the result has urgency level \<open>normal\<close>, overall confidence 0, audio quality rated \<open>failed\<close>
  with score 0, and the fixed, non-empty repair keywords \<open>audio analysis failed\<close>,
  \<open>re-record audio\<close>. That list is not handed on: for a failure variant the route stops with
  an error before the tutorial search, which receives nothing; and whenever the tutorial
  search is called it receives the keywords of the narration service (or the default
  \<open>engine diagnostic repair\<close>), the same whatever the repair keywords of the analysis are.
\<close>

theorem failure_variant_fields:
  "(\<not> analysis_successful (analyze_engine_sound set_order outcome quality fa features) \<longrightarrow>
       urgency_level (analyze_engine_sound set_order outcome quality fa features) = ''normal''
     \<and> overall_confidence (analyze_engine_sound set_order outcome quality fa features) = 0
     \<and> rating (result_audio_quality (analyze_engine_sound set_order outcome quality fa features)) = ''failed''
     \<and> score (result_audio_quality (analyze_engine_sound set_order outcome quality fa features)) = 0
     \<and> repair_keywords (analyze_engine_sound set_order outcome quality fa features)
          = [''audio analysis failed'', ''re-record audio'']
     \<and> repair_keywords (analyze_engine_sound set_order outcome quality fa features) \<noteq> []
     \<and> tutorial_search_input
          (snd (diagnose_engine_sound user_exists content_type filename storage_error
                  set_order outcome quality fa features)) narrated = None)
   \<and> tutorial_search_input (Analysed r) narrated
       = tutorial_search_input (Analysed (r\<lparr>repair_keywords := other_keywords\<rparr>)) narrated
   \<and> tutorial_search_input (Analysed r) (Narrated (Some search_keywords)) = Some search_keywords
   \<and> tutorial_search_input (Analysed r) (Narrated None) = Some [''engine diagnostic repair'']"
proof (intro conjI impI)
  assume f: "\<not> analysis_successful (analyze_engine_sound set_order outcome quality fa features)"
  then show
    "urgency_level (analyze_engine_sound set_order outcome quality fa features) = ''normal''"
    "overall_confidence (analyze_engine_sound set_order outcome quality fa features) = 0"
    "rating (result_audio_quality (analyze_engine_sound set_order outcome quality fa features)) = ''failed''"
    "score (result_audio_quality (analyze_engine_sound set_order outcome quality fa features)) = 0"
    "repair_keywords (analyze_engine_sound set_order outcome quality fa features)
          = [''audio analysis failed'', ''re-record audio'']"
    "repair_keywords (analyze_engine_sound set_order outcome quality fa features) \<noteq> []"
    by (cases outcome;
        auto simp: analyze_engine_sound_def create_failed_analysis_def Let_def split: if_splits)+
  from f have "analysis_failed (analyze_engine_sound set_order outcome quality fa features)"
    by (simp add: failure_variant_flags)
  from route_stops_on_failure [OF this, of user_exists content_type filename storage_error]
  show "tutorial_search_input
          (snd (diagnose_engine_sound user_exists content_type filename storage_error
                  set_order outcome quality fa features)) narrated = None"
    by (auto simp: tutorial_search_input_def)
qed (simp_all add: tutorial_search_input_def)

text \<open>
  An exception of the loader gives the failure variant, with those fields, and the tutorial
  search is not called.
\<close>

theorem failure_variant_fields_witness:
  "\<not> analysis_successful
       (analyze_engine_sound remdups LoadRaised \<lparr>score = 0.3, rating = ''poor'', issues = []\<rparr> None None)
   \<and> repair_keywords
       (analyze_engine_sound remdups LoadRaised \<lparr>score = 0.3, rating = ''poor'', issues = []\<rparr> None None)
        = [''audio analysis failed'', ''re-record audio'']
   \<and> urgency_level
       (analyze_engine_sound remdups LoadRaised \<lparr>score = 0.3, rating = ''poor'', issues = []\<rparr> None None)
        = ''normal''
   \<and> tutorial_search_input
       (snd (diagnose_engine_sound True (Some ''audio/wav'') (Some ''engine.wav'') None remdups LoadRaised
               \<lparr>score = 0.3, rating = ''poor'', issues = []\<rparr> None None))
       (Narrated None) = None"
proof -
  have h: "\<not> analysis_successful
      (analyze_engine_sound remdups LoadRaised \<lparr>score = 0.3, rating = ''poor'', issues = []\<rparr> None None)"
    by (simp add: analyze_engine_sound_def create_failed_analysis_def)
  from failure_variant_fields [of remdups LoadRaised "\<lparr>score = 0.3, rating = ''poor'', issues = []\<rparr>"
      None None True "Some ''audio/wav''" "Some ''engine.wav''" None "Narrated None"] h
  show ?thesis by blast
qed

subsection \<open>Empty and silent waveforms\<close>

lemma analyze_nonempty_successful:
  "y \<noteq> [] \<Longrightarrow> analysis_successful (analyze_engine_sound set_order (Loaded y) quality fa features)"
  by (simp add: analyze_engine_sound_def Let_def)

text \<open>
  Claim C1, as stated, fails twice. A silent waveform of four zero samples is not empty, so
  the analysis runs and reports \<open>analysis_successful = True\<close>; by
  \<open>analyze_nonempty_successful\<close> this holds whatever the three sub-analyses return (the
  values given here are placeholders). And the empty waveform gives the failure variant, whose
  quality rating is \<open>failed\<close>, not \<open>poor\<close>.
\<close>

theorem silent_waveform_counterexample:
  "analysis_successful
     (analyze_engine_sound remdups (Loaded [0, 0, 0, 0])
        \<lparr>score = 0.3, rating = ''poor'', issues = [''Quality analysis failed'']\<rparr>
        (Some \<lparr>dominant_frequency = 0, frequency_bands = [], peak_frequencies = []\<rparr>) None)
   \<and> rating (result_audio_quality
       (analyze_engine_sound remdups (Loaded [])
          \<lparr>score = 0.3, rating = ''poor'', issues = [''Quality analysis failed'']\<rparr>
          (Some \<lparr>dominant_frequency = 0, frequency_bands = [], peak_frequencies = []\<rparr>) None))
     \<noteq> ''poor''"
  by (simp add: analyze_engine_sound_def create_failed_analysis_def Let_def)

text \<open>
  Claim C1, amended. The analysis reports success exactly when decoding delivered a non-empty
  waveform (silent or not). In every other case (staging or decoding raised, or the waveform
  is empty) it returns \<open>analysis_successful = False\<close>, empty fault and pattern lists and an
  audio quality of score 0 rated \<open>failed\<close>. The function is total: every exception of the
  source is one of these cases, so nothing is raised to the caller.
\<close>

theorem analyze_engine_sound_failure_iff:
  "(analysis_successful (analyze_engine_sound set_order outcome quality fa features)
      \<longleftrightarrow> (\<exists>y. outcome = Loaded y \<and> y \<noteq> []))
   \<and> (\<not> analysis_successful (analyze_engine_sound set_order outcome quality fa features) \<longrightarrow>
        detected_faults (analyze_engine_sound set_order outcome quality fa features) = []
      \<and> sound_patterns (analyze_engine_sound set_order outcome quality fa features) = []
      \<and> score (result_audio_quality (analyze_engine_sound set_order outcome quality fa features)) = 0
      \<and> rating (result_audio_quality (analyze_engine_sound set_order outcome quality fa features)) = ''failed'')"
  by (cases outcome)
     (auto simp: analyze_engine_sound_def create_failed_analysis_def Let_def split: if_splits)

text \<open>The empty waveform fails with those fields; a waveform of two zero samples succeeds.\<close>

theorem analyze_engine_sound_failure_iff_witness:
  "\<not> analysis_successful (analyze_engine_sound remdups (Loaded [])
        \<lparr>score = 0.3, rating = ''poor'', issues = []\<rparr> None None)
   \<and> detected_faults (analyze_engine_sound remdups (Loaded [])
        \<lparr>score = 0.3, rating = ''poor'', issues = []\<rparr> None None) = []
   \<and> rating (result_audio_quality (analyze_engine_sound remdups (Loaded [])
        \<lparr>score = 0.3, rating = ''poor'', issues = []\<rparr> None None)) = ''failed''
   \<and> analysis_successful (analyze_engine_sound remdups (Loaded [0, 0])
        \<lparr>score = 0.3, rating = ''poor'', issues = []\<rparr> None None)"
  using analyze_engine_sound_failure_iff
      [of remdups "Loaded []" "\<lparr>score = 0.3, rating = ''poor'', issues = []\<rparr>" None None]
    analyze_engine_sound_failure_iff
      [of remdups "Loaded [0, 0]" "\<lparr>score = 0.3, rating = ''poor'', issues = []\<rparr>" None None]
  by simp

subsection \<open>Undecodable images\<close>

text \<open>
  Claim C2, as stated, fails: for a buffer that \<^verbatim>\<open>cv2.imdecode\<close> cannot decode, the image
  quality score and the overall confidence of the result are not zero.
\<close>

theorem undecodable_image_counterexample:
  "quality_score (result_image_quality (analyze_dashboard_image DecodedNone)) \<noteq> 0
   \<and> image_overall_confidence (analyze_dashboard_image DecodedNone) \<noteq> 0"
  by (simp add: analyze_dashboard_image_def failed_image_analysis_def)

text \<open>
  Claim C2, amended. For every buffer that is not decoded (the decoder returns nothing or
  raises), the result is complete, with \<open>dashboard_detected = False\<close>, no lights, the
  placeholder image quality score 0.5, the placeholder overall confidence 0.3,
  \<open>processing_successful = False\<close> and an error text; nothing is raised to the caller.
\<close>

theorem undecodable_image_result:
  "(\<forall>d cs q. outcome \<noteq> Decoded d cs q) \<Longrightarrow>
     \<not> dashboard_detected (analyze_dashboard_image outcome)
   \<and> detected_lights (analyze_dashboard_image outcome) = []
   \<and> quality_score (result_image_quality (analyze_dashboard_image outcome)) = 0.5
   \<and> image_overall_confidence (analyze_dashboard_image outcome) = 0.3
   \<and> \<not> image_processing_successful (analyze_dashboard_image outcome)
   \<and> image_error (analyze_dashboard_image outcome) \<noteq> None"
  by (cases outcome) (auto simp: analyze_dashboard_image_def failed_image_analysis_def)

theorem undecodable_image_result_witness:
  "\<not> dashboard_detected (analyze_dashboard_image DecodedNone)
   \<and> detected_lights (analyze_dashboard_image DecodedNone) = []
   \<and> quality_score (result_image_quality (analyze_dashboard_image DecodedNone)) = 0.5
   \<and> image_overall_confidence (analyze_dashboard_image DecodedNone) = 0.3
   \<and> image_error (analyze_dashboard_image DecodedNone) = Some ''Could not decode image''"
proof -
  have h: "\<forall>d cs q. DecodedNone \<noteq> Decoded d cs q" by simp
  from undecodable_image_result [OF h] show ?thesis
    by (simp add: analyze_dashboard_image_def failed_image_analysis_def)
qed

subsection \<open>Overall audio confidence\<close>

lemma foldl_add_sum: "foldl (\<lambda>total x. total + g x) a xs = a + sum_list (map g xs)"
  for a :: real
  by (induction xs arbitrary: a) (simp_all add: add.assoc)

lemma weighted_fault_confidence_sum:
  "weighted_fault_confidence faults =
     sum_list (map (\<lambda>f. confidence f * severity_weight (severity f)) faults)"
  by (simp add: weighted_fault_confidence_def foldl_add_sum)

lemma mean_nonneg: "(\<forall>x\<in>set xs. 0 \<le> x) \<Longrightarrow> 0 \<le> mean xs"
  by (simp add: mean_def sum_list_nonneg)

text \<open>
  Claim C4, as stated, fails in its last part: the result is capped at 1 but has no floor,
  and the quality score that enters it is not clipped. A very faint constant recording has
  a signal-to-noise ratio of 0 dB, a dynamic range far below zero (here -200 dB: amplitude
  \<open>1e-20\<close> against the \<open>1e-10\<close> added to the mean), no clipping and only silent samples:
  its quality score is \<open>0 - 1.5 + 0.2 + 0 = -1.3\<close>. With no candidate, dominant frequency 0
  and no pattern the overall confidence is \<open>-0.39 + 0.2 = -0.19\<close>.
\<close>

theorem negative_quality_counterexample:
  "score (assess_audio_quality 0 (- 200) 0 1 4) = - 1.3
   \<and> calculate_enhanced_confidence [] (assess_audio_quality 0 (- 200) 0 1 4)
       (Some \<lparr>dominant_frequency = 0, frequency_bands = [], peak_frequencies = []\<rparr>) [] = - 0.19
   \<and> calculate_enhanced_confidence [] (assess_audio_quality 0 (- 200) 0 1 4)
       (Some \<lparr>dominant_frequency = 0, frequency_bands = [], peak_frequencies = []\<rparr>) [] < 0"
  by (simp add: calculate_enhanced_confidence_def get_dominant_frequency_def
      assess_audio_quality_def round3_def round_half_even_def)

text \<open>
  Claim C4, amended. The overall confidence is the quality score times 0.3, plus the mean of
  (candidate confidence times 1.0 for severity \<open>critical\<close>, else 0.8) times 0.4 when there
  are candidates, else plus 0.2, plus 0.2 when the dominant frequency is positive, plus the
  mean pattern strength times 0.1 when there are patterns, capped at 1. It is therefore at
  most 1, and at least 0 whenever the quality score, the candidate confidences and the
  pattern strengths are not negative.
\<close>

theorem calculate_enhanced_confidence_formula:
  "calculate_enhanced_confidence faults quality fa patterns =
     min (score quality * 0.3
          + (if faults \<noteq> []
             then mean (map (\<lambda>f. confidence f * (if severity f = ''critical'' then 1.0 else 0.8)) faults) * 0.4
             else 0.2)
          + (if get_dominant_frequency fa > 0 then 0.2 else 0)
          + (if patterns \<noteq> [] then mean (map strength patterns) * 0.1 else 0)) 1.0
   \<and> calculate_enhanced_confidence faults quality fa patterns \<le> 1
   \<and> (0 \<le> score quality \<and> (\<forall>f\<in>set faults. 0 \<le> confidence f) \<and> (\<forall>p\<in>set patterns. 0 \<le> strength p)
        \<longrightarrow> 0 \<le> calculate_enhanced_confidence faults quality fa patterns)"
proof (intro conjI impI)
  show eq: "calculate_enhanced_confidence faults quality fa patterns =
     min (score quality * 0.3
          + (if faults \<noteq> []
             then mean (map (\<lambda>f. confidence f * (if severity f = ''critical'' then 1.0 else 0.8)) faults) * 0.4
             else 0.2)
          + (if get_dominant_frequency fa > 0 then 0.2 else 0)
          + (if patterns \<noteq> [] then mean (map strength patterns) * 0.1 else 0)) 1.0"
    by (simp add: calculate_enhanced_confidence_def Let_def weighted_fault_confidence_sum
        mean_def severity_weight_def)
  show "calculate_enhanced_confidence faults quality fa patterns \<le> 1"
    by (simp add: calculate_enhanced_confidence_def Let_def)
  assume h: "0 \<le> score quality \<and> (\<forall>f\<in>set faults. 0 \<le> confidence f)
               \<and> (\<forall>p\<in>set patterns. 0 \<le> strength p)"
  have a: "0 \<le> score quality * 0.3" using h by simp
  have "\<forall>x\<in>set (map (\<lambda>f. confidence f * (if severity f = ''critical'' then 1.0 else 0.8)) faults). 0 \<le> x"
    using h by auto
  then have b: "0 \<le> mean (map (\<lambda>f. confidence f * (if severity f = ''critical'' then 1.0 else 0.8)) faults) * 0.4"
    using mean_nonneg by fastforce
  have "\<forall>x\<in>set (map strength patterns). 0 \<le> x" using h by auto
  then have c: "0 \<le> mean (map strength patterns) * 0.1"
    using mean_nonneg by fastforce
  show "0 \<le> calculate_enhanced_confidence faults quality fa patterns"
    unfolding eq using a b c by (simp add: min_def)
qed

text \<open>
  A critical candidate of confidence 0.9 and a warning one of 0.5, quality 0.8, a dominant
  frequency of 1500 Hz and one pattern of strength 0.5:
  \<open>0.24 + 0.65 * 0.4 + 0.2 + 0.05 = 0.75\<close>.
\<close>

theorem calculate_enhanced_confidence_formula_witness:
  "calculate_enhanced_confidence
      [make_fault (engine_fault_patterns ! 1) (0.9, []), make_fault (engine_fault_patterns ! 0) (0.5, [])]
      \<lparr>score = 0.8, rating = ''good'', issues = []\<rparr>
      (Some \<lparr>dominant_frequency = 1500, frequency_bands = [], peak_frequencies = []\<rparr>)
      [\<lparr>pattern_type = ''rhythmic'', strength = 0.5, pattern_characteristics = []\<rparr>]
    = 0.75
   \<and> 0 \<le> calculate_enhanced_confidence
      [make_fault (engine_fault_patterns ! 1) (0.9, []), make_fault (engine_fault_patterns ! 0) (0.5, [])]
      \<lparr>score = 0.8, rating = ''good'', issues = []\<rparr>
      (Some \<lparr>dominant_frequency = 1500, frequency_bands = [], peak_frequencies = []\<rparr>)
      [\<lparr>pattern_type = ''rhythmic'', strength = 0.5, pattern_characteristics = []\<rparr>]"
  using calculate_enhanced_confidence_formula
     [of "[make_fault (engine_fault_patterns ! 1) (0.9, []), make_fault (engine_fault_patterns ! 0) (0.5, [])]"
      "\<lparr>score = 0.8, rating = ''good'', issues = []\<rparr>"
      "Some \<lparr>dominant_frequency = 1500, frequency_bands = [], peak_frequencies = []\<rparr>"
      "[\<lparr>pattern_type = ''rhythmic'', strength = 0.5, pattern_characteristics = []\<rparr>]"]
  by (simp add: make_fault_def engine_fault_patterns_def mean_def get_dominant_frequency_def)

subsection \<open>Sorting as Python does\<close>

lemma sort_reverse_stable:
  "filter (\<lambda>y. k y = v) (sort_reverse k xs) = filter (\<lambda>y. k y = v) xs"
proof -
  have "filter (\<lambda>y. k y = v) (sort_reverse k xs) = rev (filter (\<lambda>y. k y = v) (sort_key k (rev xs)))"
    by (simp add: sort_reverse_def rev_filter)
  also have "\<dots> = rev (filter (\<lambda>y. k y = v) (rev xs))"
    by (simp only: sort_key_stable)
  also have "\<dots> = filter (\<lambda>y. k y = v) xs"
    by (simp add: rev_filter)
  finally show ?thesis .
qed

lemma sort_reverse_descending:
  "sorted_wrt (\<lambda>a b. k a \<ge> k b) (sort_reverse k xs)"
proof -
  have "sorted (map k (sort_key k (rev xs)))" by (rule sorted_sort_key)
  then have "sorted_wrt (\<lambda>a b. k a \<le> k b) (sort_key k (rev xs))"
    by (simp add: sorted_wrt_map)
  then show ?thesis
    by (simp add: sort_reverse_def sorted_wrt_rev)
qed

lemma set_sort_reverse: "set (sort_reverse k xs) = set xs"
  by (simp add: sort_reverse_def)

lemma length_sort_reverse: "length (sort_reverse k xs) = length xs"
  by (simp add: sort_reverse_def)

subsection \<open>Fault candidates: threshold and order\<close>

lemma check_fault_patterns_eq:
  "check_fault_patterns tbl fa ps =
     map (\<lambda>fi. make_fault fi (score_fault fi fa ps))
         (filter (\<lambda>fi. fst (score_fault fi fa ps) > 0.4) tbl)"
  by (induction tbl) simp_all

lemma distinct_sig_names: "distinct (map sig_name engine_fault_patterns)"
  by (simp add: engine_fault_patterns_def)

lemma sig_name_inj:
  "a \<in> set engine_fault_patterns \<Longrightarrow> b \<in> set engine_fault_patterns \<Longrightarrow>
   sig_name a = sig_name b \<Longrightarrow> a = b"
  using distinct_sig_names by (auto simp: distinct_map inj_on_def)

lemma name_make_fault: "name (make_fault fi t) = sig_name fi"
  by (simp add: make_fault_def)

lemmas score_eval = detect_engine_faults_def sort_reverse_def engine_fault_patterns_def
    score_fault_def dominant_step_def peak_step_def band_step_def pattern_step_def
    get_dominant_frequency_def get_peak_frequencies_def get_frequency_bands_def
    band_energy_def band_energy_total_def in_range_def make_fault_def Let_def

text \<open>
  Claim C5. A signature of the table yields a candidate exactly when its accumulated
  confidence exceeds 0.4 (and each such signature yields one candidate); the candidate list
  is in descending order of recorded confidence; and candidates of equal recorded confidence
  stand in the order of the table, since for every value \<open>v\<close> the candidates with confidence
  \<open>v\<close> are those of the table-order scan, in the same order.
\<close>

theorem detect_engine_faults_threshold_and_order:
  "(\<forall>fi\<in>set engine_fault_patterns.
       (\<exists>c\<in>set (detect_engine_faults fa ps). name c = sig_name fi)
         \<longleftrightarrow> fst (score_fault fi fa ps) > 0.4)
   \<and> length (detect_engine_faults fa ps)
       = length (filter (\<lambda>fi. fst (score_fault fi fa ps) > 0.4) engine_fault_patterns)
   \<and> sorted_wrt (\<lambda>a b. confidence a \<ge> confidence b) (detect_engine_faults fa ps)
   \<and> (\<forall>v. filter (\<lambda>c. confidence c = v) (detect_engine_faults fa ps)
          = filter (\<lambda>c. confidence c = v)
              (map (\<lambda>fi. make_fault fi (score_fault fi fa ps))
                 (filter (\<lambda>fi. fst (score_fault fi fa ps) > 0.4) engine_fault_patterns)))"
proof (intro conjI ballI allI)
  fix fi assume fi: "fi \<in> set engine_fault_patterns"
  have s: "set (detect_engine_faults fa ps) =
      (\<lambda>fi. make_fault fi (score_fault fi fa ps)) `
        {fi \<in> set engine_fault_patterns. fst (score_fault fi fa ps) > 0.4}"
    by (simp add: detect_engine_faults_def set_sort_reverse check_fault_patterns_eq)
  show "(\<exists>c\<in>set (detect_engine_faults fa ps). name c = sig_name fi)
         \<longleftrightarrow> fst (score_fault fi fa ps) > 0.4"
  proof
    assume "\<exists>c\<in>set (detect_engine_faults fa ps). name c = sig_name fi"
    then obtain fi' where f': "fi' \<in> set engine_fault_patterns"
        "fst (score_fault fi' fa ps) > 0.4" "sig_name fi' = sig_name fi"
      unfolding s by (auto simp: name_make_fault)
    then have "fi' = fi" using fi sig_name_inj by blast
    then show "fst (score_fault fi fa ps) > 0.4" using f' by simp
  next
    assume "fst (score_fault fi fa ps) > 0.4"
    then have "make_fault fi (score_fault fi fa ps) \<in> set (detect_engine_faults fa ps)"
      unfolding s using fi by blast
    then show "\<exists>c\<in>set (detect_engine_faults fa ps). name c = sig_name fi"
      using name_make_fault by blast
  qed
next
  show "length (detect_engine_faults fa ps)
       = length (filter (\<lambda>fi. fst (score_fault fi fa ps) > 0.4) engine_fault_patterns)"
    by (simp add: detect_engine_faults_def length_sort_reverse check_fault_patterns_eq)
next
  show "sorted_wrt (\<lambda>a b. confidence a \<ge> confidence b) (detect_engine_faults fa ps)"
    unfolding detect_engine_faults_def by (rule sort_reverse_descending)
next
  fix v
  show "filter (\<lambda>c. confidence c = v) (detect_engine_faults fa ps)
          = filter (\<lambda>c. confidence c = v)
              (map (\<lambda>fi. make_fault fi (score_fault fi fa ps))
                 (filter (\<lambda>fi. fst (score_fault fi fa ps) > 0.4) engine_fault_patterns))"
    unfolding detect_engine_faults_def check_fault_patterns_eq by (rule sort_reverse_stable)
qed

text \<open>
  On the worked input six signatures pass the threshold. The two with confidence 0.94 and
  the three with confidence 0.7 keep their table order.
\<close>

theorem detect_engine_faults_threshold_and_order_witness:
  "sorted_wrt (\<lambda>a b. confidence a \<ge> confidence b) (detect_engine_faults example_spectrum example_patterns)
   \<and> map (\<lambda>c. (name c, confidence c)) (detect_engine_faults example_spectrum example_patterns) =
      [(''timing_chain_rattle'', 0.94), (''valve_lifter_noise'', 0.94), (''cv_joint_clicking'', 0.74),
       (''spark_plug_misfire'', 0.7), (''worn_engine_bearings'', 0.7), (''engine_knock'', 0.7)]
   \<and> map sig_name (filter (\<lambda>fi. fst (score_fault fi example_spectrum example_patterns) > 0.4)
          engine_fault_patterns) =
      [''spark_plug_misfire'', ''timing_chain_rattle'', ''worn_engine_bearings'',
       ''valve_lifter_noise'', ''cv_joint_clicking'', ''engine_knock'']"
proof -
  have a: "sorted_wrt (\<lambda>a b. confidence a \<ge> confidence b)
      (detect_engine_faults example_spectrum example_patterns)"
    using detect_engine_faults_threshold_and_order [of example_spectrum example_patterns] by blast
  have b: "map (\<lambda>c. (name c, confidence c)) (detect_engine_faults example_spectrum example_patterns) =
      [(''timing_chain_rattle'', 0.94), (''valve_lifter_noise'', 0.94), (''cv_joint_clicking'', 0.74),
       (''spark_plug_misfire'', 0.7), (''worn_engine_bearings'', 0.7), (''engine_knock'', 0.7)]"
    by (simp add: score_eval example_spectrum_def example_patterns_def)
  have c: "map sig_name (filter (\<lambda>fi. fst (score_fault fi example_spectrum example_patterns) > 0.4)
          engine_fault_patterns) =
      [''spark_plug_misfire'', ''timing_chain_rattle'', ''worn_engine_bearings'',
       ''valve_lifter_noise'', ''cv_joint_clicking'', ''engine_knock'']"
    by (simp add: score_eval example_spectrum_def example_patterns_def)
  from a b c show ?thesis by blast
qed

subsection \<open>Fault confidence: monotone accumulation and cap\<close>

lemma dominant_step_add:
  "fst (dominant_step fi d t) = fst t + fst (dominant_step fi d (0, []))"
  by (simp add: dominant_step_def)

lemma peak_step_add:
  "fst (peak_step fi peaks t) = fst t + fst (peak_step fi peaks (0, []))"
  by (simp add: peak_step_def Let_def)

lemma band_step_add:
  "fst (band_step n bands t) = fst t + fst (band_step n bands (0, []))"
  by (simp add: band_step_def)

lemma pattern_step_add:
  "fst (pattern_step n t p) = fst t + fst (pattern_step n (0, []) p)"
  by (simp add: pattern_step_def)

lemma dominant_step_nonneg: "0 \<le> fst (dominant_step fi d (0, []))"
  by (simp add: dominant_step_def)

lemma peak_step_nonneg: "0 \<le> fst (peak_step fi peaks (0, []))"
  by (simp add: peak_step_def Let_def)

lemma band_step_nonneg: "0 \<le> fst (band_step n bands (0, []))"
  by (simp add: band_step_def)

lemma pattern_step_nonneg: "0 \<le> strength p \<Longrightarrow> 0 \<le> fst (pattern_step n (0, []) p)"
  by (simp add: pattern_step_def)

lemma foldl_pattern_step:
  "fst (foldl (pattern_step n) t ps)
     = fst t + sum_list (map (\<lambda>p. fst (pattern_step n (0, []) p)) ps)"
proof (induction ps arbitrary: t)
  case Nil
  show ?case by simp
next
  case (Cons p ps)
  have "fst (foldl (pattern_step n) t (p # ps))
          = fst (pattern_step n t p) + sum_list (map (\<lambda>p. fst (pattern_step n (0, []) p)) ps)"
    by (simp add: Cons.IH)
  also have "\<dots> = fst t + sum_list (map (\<lambda>p. fst (pattern_step n (0, []) p)) (p # ps))"
    using pattern_step_add [of n t p] by simp
  finally show ?case .
qed

lemma score_fault_sum:
  "fst (score_fault fi fa ps) =
       fst (dominant_step fi (get_dominant_frequency fa) (0, []))
     + fst (peak_step fi (get_peak_frequencies fa) (0, []))
     + fst (band_step (sig_name fi) (get_frequency_bands fa) (0, []))
     + sum_list (map (\<lambda>p. fst (pattern_step (sig_name fi) (0, []) p)) ps)"
  unfolding score_fault_def Let_def foldl_pattern_step
  using band_step_add [of "sig_name fi" "get_frequency_bands fa"
          "peak_step fi (get_peak_frequencies fa) (dominant_step fi (get_dominant_frequency fa) (0, []))"]
        peak_step_add [of fi "get_peak_frequencies fa" "dominant_step fi (get_dominant_frequency fa) (0, [])"]
  by simp

lemma peak_step_more:
  "fst (peak_step fi (xs @ ys) (0, [])) \<le> fst (peak_step fi (xs @ pk # ys) (0, []))"
proof (cases "filter (in_range (frequency_range fi)) (xs @ ys) = []")
  case True
  have "fst (peak_step fi (xs @ ys) (0, [])) = 0"
    using True by (simp add: peak_step_def Let_def)
  then show ?thesis using peak_step_nonneg [of fi "xs @ pk # ys"] by simp
next
  case False
  then have ne: "filter (in_range (frequency_range fi)) xs \<noteq> [] \<or> filter (in_range (frequency_range fi)) ys \<noteq> []"
    by simp
  have "real (length (filter (in_range (frequency_range fi)) (xs @ ys))) / 3
        \<le> real (length (filter (in_range (frequency_range fi)) (xs @ pk # ys))) / 3"
    by simp
  then have "min (real (length (filter (in_range (frequency_range fi)) (xs @ ys))) / 3) 1
        \<le> min (real (length (filter (in_range (frequency_range fi)) (xs @ pk # ys))) / 3) 1"
    by (rule min.mono) simp
  then show ?thesis using ne False
    by (auto simp add: peak_step_def Let_def)
qed

lemma dominant_step_match:
  "in_range (frequency_range fi) d \<Longrightarrow>
   fst (dominant_step fi d' (0, [])) \<le> fst (dominant_step fi d (0, []))"
  by (simp add: dominant_step_def)

lemma detect_sound_patterns_positive:
  "p \<in> set (detect_sound_patterns features) \<Longrightarrow> 0.3 < strength p"
  by (cases features) (auto simp: detect_sound_patterns_def split: if_splits)

lemma confidence_make_fault: "confidence (make_fault fi t) \<le> 1"
  by (simp add: make_fault_def)

lemma check_fault_patterns_capped:
  "c \<in> set (check_fault_patterns tbl fa ps) \<Longrightarrow> 0.4 < confidence c \<and> confidence c \<le> 1"
  by (induction tbl) (auto simp: make_fault_def split: if_splits)

text \<open>
  Claim C6. Accumulation is monotone. Each of the four evidence steps leaves the running
  confidence unchanged or adds to it: the dominant-frequency match, the peak matches and the
  band-energy rule always, a compatible pattern when its strength is not negative, which
  holds for every pattern that \<open>detect_sound_patterns\<close> emits. Hence for every signature a
  matching dominant frequency instead of any other one, one more peak, the band energies
  instead of none, and one more pattern of non-negative strength never decrease the
  accumulated confidence. The confidence recorded on an emitted candidate is at most 1.
\<close>

theorem fault_confidence_monotone:
  "fst t \<le> fst (dominant_step fi d t)
   \<and> fst t \<le> fst (peak_step fi peaks t)
   \<and> fst t \<le> fst (band_step (sig_name fi) bands t)
   \<and> (0 \<le> strength p \<longrightarrow> fst t \<le> fst (pattern_step (sig_name fi) t p))
   \<and> (\<forall>q\<in>set (detect_sound_patterns features). fst t \<le> fst (pattern_step (sig_name fi) t q))
   \<and> (in_range (frequency_range fi) d \<longrightarrow>
        fst (score_fault fi (Some (f\<lparr>dominant_frequency := d'\<rparr>)) ps)
          \<le> fst (score_fault fi (Some (f\<lparr>dominant_frequency := d\<rparr>)) ps))
   \<and> fst (score_fault fi (Some (f\<lparr>peak_frequencies := xs @ ys\<rparr>)) ps)
        \<le> fst (score_fault fi (Some (f\<lparr>peak_frequencies := xs @ pk # ys\<rparr>)) ps)
   \<and> fst (score_fault fi (Some (f\<lparr>frequency_bands := []\<rparr>)) ps) \<le> fst (score_fault fi (Some f) ps)
   \<and> (0 \<le> strength p \<longrightarrow>
        fst (score_fault fi fa (before @ after)) \<le> fst (score_fault fi fa (before @ p # after)))
   \<and> (\<forall>c\<in>set (detect_engine_faults fa ps). confidence c \<le> 1)"
proof (intro conjI impI ballI)
  show "fst t \<le> fst (dominant_step fi d t)"
    using dominant_step_add [of fi d t] dominant_step_nonneg [of fi d] by simp
  show "fst t \<le> fst (peak_step fi peaks t)"
    using peak_step_add [of fi peaks t] peak_step_nonneg [of fi peaks] by simp
  show "fst t \<le> fst (band_step (sig_name fi) bands t)"
    using band_step_add [of "sig_name fi" bands t] band_step_nonneg [of "sig_name fi" bands] by simp
next
  assume "0 \<le> strength p"
  then show "fst t \<le> fst (pattern_step (sig_name fi) t p)"
    using pattern_step_add [of "sig_name fi" t p] pattern_step_nonneg [of p "sig_name fi"] by simp
next
  fix q assume "q \<in> set (detect_sound_patterns features)"
  then have "0 \<le> strength q" using detect_sound_patterns_positive [of q features] by simp
  then show "fst t \<le> fst (pattern_step (sig_name fi) t q)"
    using pattern_step_add [of "sig_name fi" t q] pattern_step_nonneg [of q "sig_name fi"] by simp
next
  assume "in_range (frequency_range fi) d"
  then show "fst (score_fault fi (Some (f\<lparr>dominant_frequency := d'\<rparr>)) ps)
          \<le> fst (score_fault fi (Some (f\<lparr>dominant_frequency := d\<rparr>)) ps)"
    using dominant_step_match [of fi d d']
    by (simp add: score_fault_sum get_dominant_frequency_def get_peak_frequencies_def
        get_frequency_bands_def)
next
  show "fst (score_fault fi (Some (f\<lparr>peak_frequencies := xs @ ys\<rparr>)) ps)
        \<le> fst (score_fault fi (Some (f\<lparr>peak_frequencies := xs @ pk # ys\<rparr>)) ps)"
    using peak_step_more [of fi xs ys pk]
    by (simp add: score_fault_sum get_dominant_frequency_def get_peak_frequencies_def
        get_frequency_bands_def)
next
  have "fst (band_step (sig_name fi) [] (0, [])) = 0"
    by (simp add: band_step_def band_energy_def band_energy_total_def)
  then show "fst (score_fault fi (Some (f\<lparr>frequency_bands := []\<rparr>)) ps) \<le> fst (score_fault fi (Some f) ps)"
    using band_step_nonneg [of "sig_name fi" "frequency_bands f"]
    by (simp add: score_fault_sum get_dominant_frequency_def get_peak_frequencies_def
        get_frequency_bands_def)
next
  assume "0 \<le> strength p"
  then show "fst (score_fault fi fa (before @ after)) \<le> fst (score_fault fi fa (before @ p # after))"
    using pattern_step_nonneg [of p "sig_name fi"] by (simp add: score_fault_sum)
next
  fix c assume "c \<in> set (detect_engine_faults fa ps)"
  then have "c \<in> set (check_fault_patterns engine_fault_patterns fa ps)"
    by (simp add: detect_engine_faults_def set_sort_reverse)
  then show "confidence c \<le> 1" using check_fault_patterns_capped by blast
qed

text \<open>
  For \<open>timing_chain_rattle\<close> on the worked input, the rhythmic pattern raises the
  accumulated confidence from 0.7 to 0.94.
\<close>

theorem fault_confidence_monotone_witness:
  "fst (score_fault (engine_fault_patterns ! 1) example_spectrum []) = 0.7
   \<and> fst (score_fault (engine_fault_patterns ! 1) example_spectrum example_patterns) = 0.94
   \<and> fst (score_fault (engine_fault_patterns ! 1) example_spectrum [])
       \<le> fst (score_fault (engine_fault_patterns ! 1) example_spectrum example_patterns)
   \<and> confidence (hd (detect_engine_faults example_spectrum example_patterns)) \<le> 1"
proof -
  have s: "0 \<le> strength (hd example_patterns)" by (simp add: example_patterns_def)
  have e: "example_patterns = [] @ hd example_patterns # []" by (simp add: example_patterns_def)
  have m: "fst (score_fault (engine_fault_patterns ! 1) example_spectrum ([] @ []))
       \<le> fst (score_fault (engine_fault_patterns ! 1) example_spectrum ([] @ hd example_patterns # []))"
    using fault_confidence_monotone [where fi = "engine_fault_patterns ! 1"
        and p = "hd example_patterns" and fa = example_spectrum and before = "[]" and after = "[]"] s by blast
  have a: "fst (score_fault (engine_fault_patterns ! 1) example_spectrum []) = 0.7"
    by (simp add: score_eval example_spectrum_def)
  have b: "fst (score_fault (engine_fault_patterns ! 1) example_spectrum example_patterns) = 0.94"
    by (simp add: score_eval example_spectrum_def example_patterns_def)
  have c: "confidence (hd (detect_engine_faults example_spectrum example_patterns)) \<le> 1"
    by (simp add: score_eval example_spectrum_def example_patterns_def)
  from m e a b c show ?thesis by simp
qed

subsection \<open>Warning lights: confidence, acceptance and severity\<close>

lemma below_pow2_numeral:
  "below_pow2 (numeral k) p x = (if p \<le> x then p else below_pow2 (pred_numeral k) (p / 2) x)"
  by (simp add: numeral_eq_Suc)

lemma above_pow2_numeral:
  "above_pow2 (numeral k) p x = (if x < 2 * p then p else above_pow2 (pred_numeral k) (2 * p) x)"
  by (simp add: numeral_eq_Suc)

lemmas double_eval = fl_def binade_def below_pow2_numeral above_pow2_numeral round_half_even_def
  Let_def fadd_def fmul_def fdiv_def py_round2_def np_round2_def

text \<open>The doubles of the literals, as exact fractions.\<close>

lemma double_literals:
  "fl 0.1 = 3602879701896397 / 36028797018963968"
  "fl 0.2 = 3602879701896397 / 18014398509481984"
  "fl 0.3 = 5404319552844595 / 18014398509481984"
  "fl 0.4 = 3602879701896397 / 9007199254740992"
  "fl 0.6 = 5404319552844595 / 9007199254740992"
  by (simp_all add: double_eval)

text \<open>
  \<open>0.2 + 0.1\<close> in doubles is \<open>0.30000000000000004\<close>, one step above the double of \<open>0.3\<close>,
  and is recorded as 0.3 when rounded to two decimals; \<open>0.0 + 0.3\<close> is the double of \<open>0.3\<close>.
\<close>

lemma double_sum_02_01:
  "fadd (fadd 0 (fl 0.2)) (fl 0.1) = 1351079888211149 / 4503599627370496"
  "fl 0.3 < fadd (fadd 0 (fl 0.2)) (fl 0.1)"
  "py_round2 (fadd (fadd 0 (fl 0.2)) (fl 0.1)) = fl 0.3"
  "fadd 0 (fl 0.3) = fl 0.3"
  by (simp_all add: double_eval)

lemma detect_color_lights_filter:
  "detect_color_lights color_name contours =
     map (\<lambda>c. make_light color_name c
                (if rect_h c > 0 then fdiv (real_of_int (rect_w c)) (real_of_int (rect_h c)) else 0)
                (fdiv (value_mean c) 255)
                (calculate_light_confidence (contour_area c)
                   (if rect_h c > 0 then fdiv (real_of_int (rect_w c)) (real_of_int (rect_h c)) else 0)
                   (fdiv (value_mean c) 255)))
         (filter (\<lambda>c. 20 < contour_area c \<and> contour_area c < 2000
                      \<and> calculate_light_confidence (contour_area c)
                           (if rect_h c > 0 then fdiv (real_of_int (rect_w c)) (real_of_int (rect_h c)) else 0)
                           (fdiv (value_mean c) 255) > fl 0.3)
                 contours)"
  by (induction contours) (simp_all add: Let_def)

lemma detect_color_lights_severity:
  "l \<in> set (detect_color_lights color_name contours) \<Longrightarrow>
   color l = color_name \<and> light_severity l = map_color_to_severity color_name"
  by (auto simp: detect_color_lights_filter make_light_def)

lemma map_color_to_severity_table:
  "map_color_to_severity ''red'' = ''critical''"
  "map_color_to_severity ''orange'' = ''high''"
  "map_color_to_severity ''amber'' = ''high''"
  "map_color_to_severity ''yellow'' = ''medium''"
  "map_color_to_severity ''blue'' = ''low''"
  "map_color_to_severity ''green'' = ''low''"
  by (simp_all add: map_color_to_severity_def)

lemma threshold_contour_confidence:
  "calculate_light_confidence (contour_area threshold_contour)
     (fdiv (real_of_int (rect_w threshold_contour)) (real_of_int (rect_h threshold_contour)))
     (fdiv (value_mean threshold_contour) 255)
   = 1351079888211149 / 4503599627370496"
  unfolding calculate_light_confidence_def Let_def threshold_contour_def
  by (simp add: double_eval)

lemma square_contour_confidence:
  "calculate_light_confidence (contour_area square_contour)
     (fdiv (real_of_int (rect_w square_contour)) (real_of_int (rect_h square_contour)))
     (fdiv (value_mean square_contour) 255)
   = 5404319552844595 / 18014398509481984"
  unfolding calculate_light_confidence_def Let_def square_contour_def
  by (simp add: double_eval)

lemma example_contour_confidence:
  "calculate_light_confidence (contour_area example_contour)
     (fdiv (real_of_int (rect_w example_contour)) (real_of_int (rect_h example_contour)))
     (fdiv (value_mean example_contour) 255)
   = 1"
  unfolding calculate_light_confidence_def Let_def example_contour_def
  by (simp add: double_eval)

lemma light_fields:
  "color (make_light color_name c ratio bright conf) = color_name"
  "light_severity (make_light color_name c ratio bright conf) = map_color_to_severity color_name"
  "light_confidence (make_light color_name c ratio bright conf) = py_round2 conf"
  by (simp_all add: make_light_def)

text \<open>
  Claim C8, evaluated where the code departs from it. The small dim contour has the band
  scores 0.2, 0.1 and 0, whose sum 0.3 does not exceed 0.3; the claim says that no light is
  accepted. The source adds the two constants in doubles and gets \<open>0.30000000000000004\<close>,
  above the double of \<open>0.3\<close>: it accepts the contour and records a light of confidence 0.3.
  The large dim square contour has the band scores 0, 0.3 and 0, the same sum; there the
  source computes the double of \<open>0.3\<close> itself and accepts no light.
\<close>

theorem threshold_light_accepted:
  "calculate_light_confidence (contour_area threshold_contour)
     (fdiv (real_of_int (rect_w threshold_contour)) (real_of_int (rect_h threshold_contour)))
     (fdiv (value_mean threshold_contour) 255)
     = 1351079888211149 / 4503599627370496
   \<and> fl 0.3 = 5404319552844595 / 18014398509481984
   \<and> map (\<lambda>l. (color l, light_severity l, light_confidence l))
        (detect_color_lights ''red'' [threshold_contour]) = [(''red'', ''critical'', fl 0.3)]
   \<and> calculate_light_confidence (contour_area square_contour)
       (fdiv (real_of_int (rect_w square_contour)) (real_of_int (rect_h square_contour)))
       (fdiv (value_mean square_contour) 255)
     = fl 0.3
   \<and> detect_color_lights ''red'' [square_contour] = []"
proof -
  have l: "fl 0.3 = 5404319552844595 / 18014398509481984"
    by (simp add: double_eval)
  have h: "20 < contour_area threshold_contour \<and> contour_area threshold_contour < 2000"
      "20 < contour_area square_contour \<and> contour_area square_contour < 2000"
      "rect_h threshold_contour > 0" "rect_h square_contour > 0"
    by (simp_all add: threshold_contour_def square_contour_def)
  have g: "fl 0.3 < 1351079888211149 / 4503599627370496"
    by (simp add: double_eval)
  have r: "py_round2 (1351079888211149 / 4503599627370496) = fl 0.3"
    by (simp add: double_eval)
  have b: "map (\<lambda>l. (color l, light_severity l, light_confidence l))
        (detect_color_lights ''red'' [threshold_contour]) = [(''red'', ''critical'', fl 0.3)]"
    using h g r
    by (simp add: detect_color_lights_filter threshold_contour_confidence light_fields
        map_color_to_severity_table)
  have c: "detect_color_lights ''red'' [square_contour] = []"
    using h l by (simp add: detect_color_lights_filter square_contour_confidence)
  from threshold_contour_confidence square_contour_confidence l b c show ?thesis
    by simp
qed

text \<open>
  Away from that threshold the source does what the claim says: the red contour of area 200,
  aspect ratio 1 and brightness 0.8 has confidence \<open>0.4 + 0.3 + 0.3 = 1\<close> and yields one
  critical red light.
\<close>

lemma example_contour_light:
  "map (\<lambda>l. (color l, light_severity l, light_confidence l))
     (detect_color_lights ''red'' [example_contour]) = [(''red'', ''critical'', 1)]"
proof -
  have h: "20 < contour_area example_contour \<and> contour_area example_contour < 2000"
      "rect_h example_contour > 0"
    by (simp_all add: example_contour_def)
  have g: "fl 0.3 < 1" "py_round2 1 = 1"
    by (simp_all add: double_eval)
  show ?thesis using h g
    by (simp add: detect_color_lights_filter example_contour_confidence light_fields
        map_color_to_severity_table)
qed

subsection \<open>Warning lights: deduplication\<close>

lemma distance_commute: "distance a b = distance b a"
  by (simp add: distance_def power2_commute)

lemma distance_less_30:
  "distance a b < 30 \<longleftrightarrow>
     (fst (position a) - fst (position b))\<^sup>2 + (snd (position a) - snd (position b))\<^sup>2 < 900"
proof -
  have "sqrt (900::real) = 30"
    using real_sqrt_abs [of 30] by simp
  then have "distance a b < 30 \<longleftrightarrow>
      sqrt (real_of_int ((fst (position a) - fst (position b))\<^sup>2
              + (snd (position a) - snd (position b))\<^sup>2)) < sqrt 900"
    by (simp add: distance_def)
  also have "\<dots> \<longleftrightarrow> real_of_int ((fst (position a) - fst (position b))\<^sup>2
              + (snd (position a) - snd (position b))\<^sup>2) < 900"
    by (rule real_sqrt_less_iff)
  also have "\<dots> \<longleftrightarrow> (fst (position a) - fst (position b))\<^sup>2
              + (snd (position a) - snd (position b))\<^sup>2 < 900"
    by linarith
  finally show ?thesis .
qed

lemma is_duplicate_iff: "is_duplicate l kept \<longleftrightarrow> (\<exists>e\<in>set kept. distance l e < 30)"
  by (induction kept) auto

lemma filter_lights_keep_separated: "filter_lights ls kept = keep_separated ls kept"
proof (induction ls arbitrary: kept)
  case Nil
  show ?case by simp
next
  case (Cons l ls)
  have "is_duplicate l kept \<longleftrightarrow> \<not> (\<forall>e\<in>set kept. 30 \<le> distance l e)"
    by (auto simp: is_duplicate_iff not_le)
  then show ?case using Cons.IH by simp
qed

lemma filter_lights_separated:
  "sorted_wrt (\<lambda>a b. 30 \<le> distance a b) kept \<Longrightarrow>
   sorted_wrt (\<lambda>a b. 30 \<le> distance a b) (filter_lights ls kept)"
proof (induction ls arbitrary: kept)
  case Nil
  then show ?case by simp
next
  case (Cons l ls)
  show ?case
  proof (cases "is_duplicate l kept")
    case True
    then show ?thesis using Cons by simp
  next
    case False
    then have "\<forall>e\<in>set kept. 30 \<le> distance e l"
      by (auto simp: is_duplicate_iff not_less distance_commute)
    then have "sorted_wrt (\<lambda>a b. 30 \<le> distance a b) (kept @ [l])"
      using Cons.prems by (simp add: sorted_wrt_append)
    then show ?thesis using False Cons.IH by simp
  qed
qed

lemma filter_lights_keeps: "set kept \<subseteq> set (filter_lights ls kept)"
proof (induction ls arbitrary: kept)
  case Nil
  show ?case by simp
next
  case (Cons l ls)
  have "set kept \<subseteq> set (if is_duplicate l kept then kept else kept @ [l])" by auto
  also have "\<dots> \<subseteq> set (filter_lights ls (if is_duplicate l kept then kept else kept @ [l]))"
    by (rule Cons.IH)
  finally show ?case by simp
qed

lemma filter_lights_subset: "set (filter_lights ls kept) \<subseteq> set kept \<union> set ls"
proof (induction ls arbitrary: kept)
  case Nil
  show ?case by simp
next
  case (Cons l ls)
  have "set (filter_lights ls (if is_duplicate l kept then kept else kept @ [l]))
          \<subseteq> set (if is_duplicate l kept then kept else kept @ [l]) \<union> set ls"
    by (rule Cons.IH)
  then show ?case by auto
qed

lemma filter_lights_covered:
  "sorted_wrt (\<lambda>a b. light_confidence a \<ge> light_confidence b) ls \<Longrightarrow>
   (\<forall>k\<in>set kept. \<forall>l\<in>set ls. light_confidence k \<ge> light_confidence l) \<Longrightarrow>
   l \<in> set ls \<Longrightarrow>
   l \<in> set (filter_lights ls kept)
   \<or> (\<exists>e\<in>set (filter_lights ls kept). distance l e < 30 \<and> light_confidence e \<ge> light_confidence l)"
proof (induction ls arbitrary: kept)
  case Nil
  then show ?case by simp
next
  case (Cons x ls)
  let ?kept = "if is_duplicate x kept then kept else kept @ [x]"
  have out: "filter_lights (x # ls) kept = filter_lights ls ?kept" by simp
  show ?case
  proof (cases "l = x")
    case True
    show ?thesis
    proof (cases "is_duplicate x kept")
      case dup: True
      then obtain e where e: "e \<in> set kept" "distance x e < 30"
        by (auto simp: is_duplicate_iff)
      have "e \<in> set (filter_lights (x # ls) kept)"
        using e filter_lights_keeps [of kept "x # ls"] by blast
      moreover have "light_confidence e \<ge> light_confidence x"
        using e Cons.prems(2) by simp
      ultimately show ?thesis using True e by blast
    next
      case False
      then have "x \<in> set ?kept" by simp
      then have "x \<in> set (filter_lights ls ?kept)"
        using filter_lights_keeps [of ?kept ls] by blast
      then show ?thesis using True out by simp
    qed
  next
    case False
    then have l: "l \<in> set ls" using Cons.prems(3) by simp
    have s: "sorted_wrt (\<lambda>a b. light_confidence a \<ge> light_confidence b) ls"
      using Cons.prems(1) by simp
    have k: "\<forall>k\<in>set ?kept. \<forall>m\<in>set ls. light_confidence k \<ge> light_confidence m"
      using Cons.prems(1,2) by auto
    from Cons.IH [OF s k l] show ?thesis using out by simp
  qed
qed

lemma remove_overlapping_lights_filter:
  "remove_overlapping_lights lights = filter_lights (sort_reverse light_confidence lights) []"
proof (cases lights)
  case Nil
  then show ?thesis by (simp add: remove_overlapping_lights_def sort_reverse_def)
next
  case (Cons x xs)
  show ?thesis
  proof (cases xs)
    case Nil
    then show ?thesis using Cons by (simp add: remove_overlapping_lights_def sort_reverse_def)
  next
    case (Cons y ys)
    then show ?thesis using \<open>lights = x # xs\<close> by (simp add: remove_overlapping_lights_def)
  qed
qed

lemma remove_overlapping_lights_pair:
  "distance a b < 30 \<Longrightarrow> light_confidence b \<le> light_confidence a \<Longrightarrow>
   remove_overlapping_lights [a, b] = [a]"
  by (simp add: remove_overlapping_lights_def sort_reverse_def distance_commute)

lemma remove_overlapping_lights_pair_swapped:
  "distance a b < 30 \<Longrightarrow> light_confidence b < light_confidence a \<Longrightarrow>
   remove_overlapping_lights [b, a] = [a]"
  by (simp add: remove_overlapping_lights_def sort_reverse_def distance_commute)

lemmas light_eval = remove_overlapping_lights_def sort_reverse_def is_duplicate_iff
  distance_less_30 example_light_def

text \<open>
  Claim C7, as stated, fails twice. Two lights whose centres are exactly 30 pixels apart are
  both kept: the source drops a light only at a distance below 30. And of two candidates
  within 30 pixels of each other the survivor need not be the one of higher confidence: with
  lights at 0, 20 and 40 on a line and confidences 0.9, 0.8 and 0.7, the middle one is dropped
  against the first, and the last one, 40 pixels from the first, survives although it is 20
  pixels from the middle one and less confident.
\<close>

theorem dedup_counterexample:
  "distance (example_light 0 0 0.9) (example_light 30 0 0.8) = 30
   \<and> remove_overlapping_lights [example_light 0 0 0.9, example_light 30 0 0.8]
       = [example_light 0 0 0.9, example_light 30 0 0.8]
   \<and> distance (example_light 20 0 0.8) (example_light 40 0 0.7) < 30
   \<and> light_confidence (example_light 40 0 0.7) < light_confidence (example_light 20 0 0.8)
   \<and> remove_overlapping_lights
        [example_light 0 0 0.9, example_light 20 0 0.8, example_light 40 0 0.7]
       = [example_light 0 0 0.9, example_light 40 0 0.7]"
proof -
  have "sqrt (900::real) = 30" using real_sqrt_abs [of 30] by simp
  then have a: "distance (example_light 0 0 0.9) (example_light 30 0 0.8) = 30"
    by (simp add: distance_def example_light_def)
  have b: "remove_overlapping_lights [example_light 0 0 0.9, example_light 30 0 0.8]
       = [example_light 0 0 0.9, example_light 30 0 0.8]"
    by (simp add: light_eval)
  have c: "distance (example_light 20 0 0.8) (example_light 40 0 0.7) < 30"
    by (simp add: distance_less_30 example_light_def)
  have d: "light_confidence (example_light 40 0 0.7) < light_confidence (example_light 20 0 0.8)"
    by (simp add: example_light_def)
  have e: "remove_overlapping_lights
        [example_light 0 0 0.9, example_light 20 0 0.8, example_light 40 0 0.7]
       = [example_light 0 0 0.9, example_light 40 0 0.7]"
    by (simp add: light_eval)
  from a b c d e show ?thesis by blast
qed

text \<open>
  Claim C7, amended. Deduplication sorts the candidates by confidence, descending and
  stably, and goes through them keeping a light if and only if its centre is at distance at
  least 30 from the centre of every light kept so far. So any two lights of the output are at
  least 30 apart; the output holds input lights only; every input light is in the output or
  lies less than 30 from an output light of at least its confidence; and of exactly two
  candidates less than 30 apart exactly one survives, the one of higher confidence (the first
  of the two when the confidences are equal).
\<close>

theorem remove_overlapping_lights_greedy:
  "remove_overlapping_lights lights = keep_separated (sort_reverse light_confidence lights) []
   \<and> (\<forall>i<length (remove_overlapping_lights lights). \<forall>j<length (remove_overlapping_lights lights).
        i \<noteq> j \<longrightarrow>
        30 \<le> distance (remove_overlapping_lights lights ! i) (remove_overlapping_lights lights ! j))
   \<and> set (remove_overlapping_lights lights) \<subseteq> set lights
   \<and> (\<forall>l\<in>set lights.
        l \<in> set (remove_overlapping_lights lights)
        \<or> (\<exists>e\<in>set (remove_overlapping_lights lights).
              distance l e < 30 \<and> light_confidence l \<le> light_confidence e))
   \<and> (distance a b < 30 \<and> light_confidence b < light_confidence a \<longrightarrow>
        remove_overlapping_lights [a, b] = [a] \<and> remove_overlapping_lights [b, a] = [a])
   \<and> (distance a b < 30 \<and> light_confidence b = light_confidence a \<longrightarrow>
        remove_overlapping_lights [a, b] = [a])"
proof (intro conjI allI impI ballI)
  let ?out = "remove_overlapping_lights lights"
  let ?sorted = "sort_reverse light_confidence lights"
  show "?out = keep_separated ?sorted []"
    by (simp add: remove_overlapping_lights_filter filter_lights_keep_separated)
  have sep: "sorted_wrt (\<lambda>a b. 30 \<le> distance a b) ?out"
    unfolding remove_overlapping_lights_filter by (rule filter_lights_separated) simp
  {
    fix i j assume ij: "i < length ?out" "j < length ?out" "i \<noteq> j"
    show "30 \<le> distance (?out ! i) (?out ! j)"
    proof (cases "i < j")
      case True
      then show ?thesis using sep ij by (simp add: sorted_wrt_iff_nth_less)
    next
      case False
      then have "j < i" using ij by simp
      then have "30 \<le> distance (?out ! j) (?out ! i)"
        using sep ij by (simp add: sorted_wrt_iff_nth_less)
      then show ?thesis by (simp add: distance_commute)
    qed
  }
  show "set ?out \<subseteq> set lights"
    using filter_lights_subset [of ?sorted "[]"]
    by (simp add: remove_overlapping_lights_filter set_sort_reverse)
  {
    fix l assume "l \<in> set lights"
    then have l: "l \<in> set ?sorted" by (simp add: set_sort_reverse)
    have s: "sorted_wrt (\<lambda>a b. light_confidence a \<ge> light_confidence b) ?sorted"
      by (rule sort_reverse_descending)
    have k: "\<forall>k\<in>set []. \<forall>m\<in>set ?sorted. light_confidence k \<ge> light_confidence m" by simp
    from filter_lights_covered [OF s k l]
    show "l \<in> set ?out \<or> (\<exists>e\<in>set ?out. distance l e < 30 \<and> light_confidence l \<le> light_confidence e)"
      by (simp add: remove_overlapping_lights_filter)
  }
  {
    assume h: "distance a b < 30 \<and> light_confidence b < light_confidence a"
    show "remove_overlapping_lights [a, b] = [a]"
      using h remove_overlapping_lights_pair [of a b] by simp
    show "remove_overlapping_lights [b, a] = [a]"
      using h remove_overlapping_lights_pair_swapped [of a b] by simp
  }
  {
    assume h: "distance a b < 30 \<and> light_confidence b = light_confidence a"
    show "remove_overlapping_lights [a, b] = [a]"
      using h remove_overlapping_lights_pair [of a b] by simp
  }
qed

text \<open>
  Two lights 10 pixels apart, in either order: the one of confidence 0.9 survives alone.
\<close>

theorem remove_overlapping_lights_greedy_witness:
  "remove_overlapping_lights [example_light 10 0 0.6, example_light 0 0 0.9] = [example_light 0 0 0.9]
   \<and> remove_overlapping_lights [example_light 0 0 0.9, example_light 10 0 0.6] = [example_light 0 0 0.9]
   \<and> remove_overlapping_lights
        [example_light 0 0 0.9, example_light 20 0 0.8, example_light 40 0 0.7]
       = keep_separated
           (sort_reverse light_confidence
              [example_light 0 0 0.9, example_light 20 0 0.8, example_light 40 0 0.7]) []"
proof -
  have h: "distance (example_light 0 0 0.9) (example_light 10 0 0.6) < 30
      \<and> light_confidence (example_light 10 0 0.6) < light_confidence (example_light 0 0 0.9)"
    by (simp add: distance_less_30 example_light_def)
  from remove_overlapping_lights_greedy
     [of "[example_light 0 0 0.9, example_light 20 0 0.8, example_light 40 0 0.7]"
         "example_light 0 0 0.9" "example_light 10 0 0.6"] h
  show ?thesis by blast
qed

subsection \<open>Audio format validation\<close>

lemma validate_unsupported_cases:
  "content_type \<notin> Some ` fst ` set supported_formats \<Longrightarrow>
   validate_audio_format content_type filename = (False, ''Audio format validation failed'')
   \<or> validate_audio_format content_type filename = (False, ''File must be an audio file'')
   \<or> validate_audio_format content_type filename =
        (False, ''Unsupported audio format. Supported formats: '' @ list_repr (map fst supported_formats))"
proof (cases content_type)
  case None
  then show ?thesis by (simp add: validate_audio_format_def)
next
  case (Some ct)
  assume "content_type \<notin> Some ` fst ` set supported_formats"
  then have "ct \<notin> fst ` set supported_formats" using Some by auto
  then have "map_of supported_formats ct = None" by (simp add: map_of_eq_None_iff)
  then show ?thesis using Some by (simp add: validate_audio_format_def)
qed

lemma validation_messages_not_decode:
  "\<not> prefix ''Audio analysis failed: '' ''Audio format validation failed''"
  "\<not> prefix ''Audio analysis failed: '' ''File must be an audio file''"
  "\<not> prefix ''Audio analysis failed: '' (''Unsupported audio format. Supported formats: '' @ rest)"
  by simp_all

lemma route_decode_failure:
  "fst (validate_audio_format content_type filename) \<Longrightarrow>
   analysis_failed (analyze_engine_sound set_order outcome quality fa features) \<Longrightarrow>
   \<exists>m. diagnose_engine_sound True content_type filename None set_order outcome quality fa features
        = ([VerifyUser, ValidateFormat, ReadBytes, StoreUpload, Decode],
           HTTPError 400 (''Audio analysis failed: '' @ m))"
  by (auto simp: diagnose_engine_sound_def Let_def split: prod.splits)

text \<open>
  Claim C9. For every declared content type that is not a key of \<open>supported_formats\<close>
  (a missing one included), \<open>validate_audio_format\<close> answers \<open>False\<close> with one of its
  three rejection messages; the route then answers status 400 with that message after the
  user lookup and the validation only, and in no case reaches the decoding of the bytes. The
  message differs from that of a decode failure, which the route reports, after decoding, as
  status 400 with a text that starts with \<open>Audio analysis failed: \<close>.
\<close>

theorem unsupported_content_type_rejected:
  "content_type \<notin> Some ` fst ` set supported_formats \<Longrightarrow>
     \<not> fst (validate_audio_format content_type filename)
   \<and> snd (validate_audio_format content_type filename) \<in>
        {''Audio format validation failed'', ''File must be an audio file'',
         ''Unsupported audio format. Supported formats: '' @ list_repr (map fst supported_formats)}
   \<and> diagnose_engine_sound True content_type filename storage_error set_order outcome quality fa features
        = ([VerifyUser, ValidateFormat],
           HTTPError 400 (snd (validate_audio_format content_type filename)))
   \<and> Decode \<notin> set (fst (diagnose_engine_sound user_exists content_type filename storage_error
                            set_order outcome quality fa features))
   \<and> \<not> prefix ''Audio analysis failed: '' (snd (validate_audio_format content_type filename))
   \<and> (fst (validate_audio_format content_type' filename')
        \<and> analysis_failed (analyze_engine_sound set_order outcome quality fa features) \<longrightarrow>
       (\<exists>m. diagnose_engine_sound True content_type' filename' None set_order outcome quality fa features
            = ([VerifyUser, ValidateFormat, ReadBytes, StoreUpload, Decode],
               HTTPError 400 (''Audio analysis failed: '' @ m))))"
proof -
  assume h: "content_type \<notin> Some ` fst ` set supported_formats"
  from validate_unsupported_cases [OF h, of filename]
  have v: "\<not> fst (validate_audio_format content_type filename)
     \<and> snd (validate_audio_format content_type filename) \<in>
        {''Audio format validation failed'', ''File must be an audio file'',
         ''Unsupported audio format. Supported formats: '' @ list_repr (map fst supported_formats)}"
    by auto
  then have p: "\<not> prefix ''Audio analysis failed: '' (snd (validate_audio_format content_type filename))"
    using validation_messages_not_decode by auto
  obtain msg where vm: "validate_audio_format content_type filename = (False, msg)"
    using v by (cases "validate_audio_format content_type filename") auto
  have r: "diagnose_engine_sound True content_type filename storage_error set_order outcome quality fa features
        = ([VerifyUser, ValidateFormat],
           HTTPError 400 (snd (validate_audio_format content_type filename)))"
    using vm by (simp add: diagnose_engine_sound_def)
  have d: "Decode \<notin> set (fst (diagnose_engine_sound user_exists content_type filename storage_error
                            set_order outcome quality fa features))"
    using vm by (simp add: diagnose_engine_sound_def)
  show ?thesis using v p r d route_decode_failure by blast
qed

lemma supported_keys:
  "fst ` set supported_formats =
     {''audio/wav'', ''audio/mpeg'', ''audio/mp4'', ''audio/x-m4a'', ''audio/ogg'', ''audio/flac''}"
  by (auto simp: supported_formats_def)

text \<open>
  \<open>text/plain\<close> is rejected before decoding; an undecodable upload declared as
  \<open>audio/wav\<close> fails at decoding with the other message.
\<close>

theorem unsupported_content_type_rejected_witness:
  "validate_audio_format (Some ''text/plain'') (Some ''notes.txt'') = (False, ''File must be an audio file'')
   \<and> diagnose_engine_sound True (Some ''text/plain'') (Some ''notes.txt'') None remdups LoadRaised
        \<lparr>score = 0.3, rating = ''poor'', issues = []\<rparr> None None
      = ([VerifyUser, ValidateFormat], HTTPError 400 ''File must be an audio file'')
   \<and> diagnose_engine_sound True (Some ''audio/wav'') (Some ''engine.wav'') None remdups LoadRaised
        \<lparr>score = 0.3, rating = ''poor'', issues = []\<rparr> None None
      = ([VerifyUser, ValidateFormat, ReadBytes, StoreUpload, Decode],
         HTTPError 400 ''Audio analysis failed: Audio file could not be loaded or is corrupted'')"
proof -
  have h: "Some ''text/plain'' \<notin> Some ` fst ` set supported_formats"
    by (simp add: supported_keys)
  have v: "validate_audio_format (Some ''text/plain'') (Some ''notes.txt'')
      = (False, ''File must be an audio file'')"
    by (simp add: validate_audio_format_def)
  have w: "diagnose_engine_sound True (Some ''audio/wav'') (Some ''engine.wav'') None remdups LoadRaised
        \<lparr>score = 0.3, rating = ''poor'', issues = []\<rparr> None None
      = ([VerifyUser, ValidateFormat, ReadBytes, StoreUpload, Decode],
         HTTPError 400 ''Audio analysis failed: Audio file could not be loaded or is corrupted'')"
    by (simp add: diagnose_engine_sound_def validate_audio_format_def supported_formats_def
        splitext_ext_def ascii_lower_def is_ascii_upper_def analyze_engine_sound_def
        create_failed_analysis_def Let_def)
  from unsupported_content_type_rejected [OF h, of "Some ''notes.txt''" None remdups LoadRaised
      "\<lparr>score = 0.3, rating = ''poor'', issues = []\<rparr>" None None] v w
  show ?thesis by simp
qed

end
